theory Spec2Isabelle
  imports Complex_Main "HOL-Library.Word"
begin

unbundle bit_operations_syntax

section \<open>The glTF asset loader of gltfio (AssetLoader.cpp)\<close>

text \<open>
  A shallow embedding of \<^verbatim>\<open>libs/gltfio/src/AssetLoader.cpp\<close>. The loader walks a parsed
  glTF document (cgltf) and creates entities, transforms, renderables, vertex and index
  buffers and material instances in the engine; it records deferred buffer and texture
  bindings in the asset it returns.

  Conventions of the embedding:
  \<^item> \<^verbatim>\<open>cgltf_size\<close> is a 64-bit word, \<^verbatim>\<open>uint32_t\<close> a 32-bit word, \<^verbatim>\<open>intptr_t\<close> a 64-bit word;
  \<^item> \<^verbatim>\<open>float\<close> is idealised as \<open>real\<close>: the loader only copies, multiplies, adds and
    compares floats;
  \<^item> pointers whose identity the loader uses (nodes, meshes, materials) are addresses into
    the document; a nullable pointer that is only dereferenced is an \<open>option\<close>;
  \<^item> engine objects are handles: the index of the object in the engine's list of objects
    of that kind; the null entity is 0;
  \<^item> undefined behaviour the loader can reach (null dereference, out-of-range array read)
    and the exception of \<^verbatim>\<open>robin_map::at\<close> are values of type \<open>error\<close>.
\<close>

subsection \<open>Scalars and small vectors\<close>

type_synonym cgltf_size = "64 word"
type_synonym uint32_t = "32 word"
type_synonym uint8_t = "8 word"
type_synonym intptr_t = "64 word"
type_synonym float = real

datatype float3 = Float3 float float float
datatype float4 = Float4 float float float float
datatype mat4f = Mat4f float4 float4 float4 float4
datatype mat3f = Mat3f float3 float3 float3

text \<open>Componentwise \<^verbatim>\<open>min\<close> and \<^verbatim>\<open>max\<close> of the math library.\<close>

fun min3 :: "float3 \<Rightarrow> float3 \<Rightarrow> float3" where
  "min3 (Float3 a b c) (Float3 x y z) = Float3 (min a x) (min b y) (min c z)"

fun max3 :: "float3 \<Rightarrow> float3 \<Rightarrow> float3" where
  "max3 (Float3 a b c) (Float3 x y z) = Float3 (max a x) (max b y) (max c z)"

text \<open>Matrices are column-major: \<open>Mat4f c0 c1 c2 c3\<close> has the columns \<open>c0 .. c3\<close>.\<close>

fun scale4 :: "float \<Rightarrow> float4 \<Rightarrow> float4" where
  "scale4 k (Float4 a b c d) = Float4 (k * a) (k * b) (k * c) (k * d)"

fun add4 :: "float4 \<Rightarrow> float4 \<Rightarrow> float4" where
  "add4 (Float4 a b c d) (Float4 x y z w) = Float4 (a + x) (b + y) (c + z) (d + w)"

fun mul_mat4_vec4 :: "mat4f \<Rightarrow> float4 \<Rightarrow> float4" where
  "mul_mat4_vec4 (Mat4f c0 c1 c2 c3) (Float4 x y z w) =
     add4 (add4 (add4 (scale4 x c0) (scale4 y c1)) (scale4 z c2)) (scale4 w c3)"

fun mul_mat4 :: "mat4f \<Rightarrow> mat4f \<Rightarrow> mat4f" where
  "mul_mat4 m (Mat4f b0 b1 b2 b3) =
     Mat4f (mul_mat4_vec4 m b0) (mul_mat4_vec4 m b1) (mul_mat4_vec4 m b2) (mul_mat4_vec4 m b3)"

definition mat4f_identity :: mat4f where
  "mat4f_identity = Mat4f (Float4 1 0 0 0) (Float4 0 1 0 0) (Float4 0 0 1 0) (Float4 0 0 0 1)"

fun xyz :: "float4 \<Rightarrow> float3" where
  "xyz (Float4 a b c d) = Float3 a b c"

fun float4_of :: "float3 \<Rightarrow> float \<Rightarrow> float4" where
  "float4_of (Float3 a b c) w = Float4 a b c w"

record Aabb =
  aabb_min :: float3
  aabb_max :: float3

subsection \<open>The document model (cgltf)\<close>

datatype cgltf_primitive_type =
  cgltf_primitive_type_points | cgltf_primitive_type_lines | cgltf_primitive_type_line_loop
  | cgltf_primitive_type_line_strip | cgltf_primitive_type_triangles
  | cgltf_primitive_type_triangle_strip | cgltf_primitive_type_triangle_fan

datatype cgltf_component_type =
  cgltf_component_type_invalid | cgltf_component_type_r_8 | cgltf_component_type_r_8u
  | cgltf_component_type_r_16 | cgltf_component_type_r_16u | cgltf_component_type_r_32u
  | cgltf_component_type_r_32f

datatype cgltf_type =
  cgltf_type_invalid | cgltf_type_scalar | cgltf_type_vec2 | cgltf_type_vec3 | cgltf_type_vec4
  | cgltf_type_mat2 | cgltf_type_mat3 | cgltf_type_mat4

datatype cgltf_attribute_type =
  cgltf_attribute_type_invalid | cgltf_attribute_type_position | cgltf_attribute_type_normal
  | cgltf_attribute_type_tangent | cgltf_attribute_type_texcoord | cgltf_attribute_type_color
  | cgltf_attribute_type_joints | cgltf_attribute_type_weights

datatype cgltf_alpha_mode =
  cgltf_alpha_mode_opaque | cgltf_alpha_mode_mask | cgltf_alpha_mode_blend

record cgltf_buffer =
  buffer_addr :: nat
  buffer_uri :: "string option"
  buffer_size :: cgltf_size

record cgltf_buffer_view =
  bv_buffer :: cgltf_buffer
  bv_offset :: cgltf_size

text \<open>
  \<open>acc_min\<close> and \<open>acc_max\<close> are the first three entries of the accessor's
  \<^verbatim>\<open>min[16]\<close> and \<^verbatim>\<open>max[16]\<close> arrays, the only ones the loader reads.
\<close>

record cgltf_accessor =
  component_type :: cgltf_component_type
  normalized :: bool
  acc_type :: cgltf_type
  acc_offset :: cgltf_size
  acc_count :: cgltf_size
  acc_stride :: cgltf_size
  buffer_view :: "cgltf_buffer_view option"
  acc_min :: float3
  acc_max :: float3
  is_sparse :: bool

record cgltf_attribute =
  attr_type :: cgltf_attribute_type
  attr_index :: nat
  attr_data :: cgltf_accessor

text \<open>\<open>material\<close> is the address of the primitive's material; 0 is the null pointer.\<close>

record cgltf_primitive =
  prim_type :: cgltf_primitive_type
  indices :: "cgltf_accessor option"
  material :: intptr_t
  attributes :: "cgltf_attribute list"

record cgltf_mesh =
  primitives :: "cgltf_primitive list"

record cgltf_image =
  image_uri :: "string option"
  image_buffer_view :: "cgltf_buffer_view option"
  mime_type :: "string option"

record cgltf_sampler =
  mag_filter :: int
  min_filter :: int
  wrap_s :: int
  wrap_t :: int

record cgltf_texture =
  texture_name :: "string option"
  image :: "cgltf_image option"
  sampler :: "cgltf_sampler option"

record cgltf_texture_transform =
  tt_offset :: "float \<times> float"
  tt_rotation :: float
  tt_scale :: "float \<times> float"

record cgltf_texture_view =
  texture :: "cgltf_texture option"
  texcoord :: int
  tv_scale :: float
  has_transform :: bool
  transform :: cgltf_texture_transform

record cgltf_pbr_metallic_roughness =
  base_color_texture :: cgltf_texture_view
  metallic_roughness_texture :: cgltf_texture_view
  base_color_factor :: float4
  metallic_factor :: float
  roughness_factor :: float

record cgltf_material =
  has_pbr_specular_glossiness :: bool
  pbr_metallic_roughness :: cgltf_pbr_metallic_roughness
  normal_texture :: cgltf_texture_view
  occlusion_texture :: cgltf_texture_view
  emissive_texture :: cgltf_texture_view
  emissive_factor :: float3
  alpha_mode :: cgltf_alpha_mode
  alpha_cutoff :: float
  double_sided :: bool
  unlit :: bool

text \<open>
  \<open>mesh\<close>, \<open>children\<close>, \<open>joints\<close> and \<open>skin\<close> hold addresses of meshes, nodes and skins.
\<close>

record cgltf_node =
  children :: "nat list"
  skin :: "nat option"
  mesh :: "nat option"
  has_matrix :: bool
  node_translation :: float3
  node_rotation :: float4
  node_scale :: float3
  node_matrix :: mat4f

record cgltf_skin =
  skin_name :: "string option"
  joints :: "nat list"

record cgltf_scene =
  scene_nodes :: "nat list"

text \<open>
  The document. \<open>node_at\<close>, \<open>mesh_at\<close> and \<open>material_at\<close> dereference an address; the node
  array \<^verbatim>\<open>nodes[0 .. nodes_count)\<close> holds the nodes at the addresses \<open>0 ..< nodes_count\<close>,
  and likewise \<open>skin_at\<close> and \<open>skins_count\<close> for the skin array.
  \<open>scenes\<close> is the scene array (the pointer \<^verbatim>\<open>scenes\<close> is null when it is empty) and \<open>scene\<close>
  the default scene, when the document names one.
\<close>

record cgltf_data =
  node_at :: "nat \<Rightarrow> cgltf_node"
  nodes_count :: nat
  mesh_at :: "nat \<Rightarrow> cgltf_mesh"
  material_at :: "intptr_t \<Rightarrow> cgltf_material"
  skin_at :: "nat \<Rightarrow> cgltf_skin"
  skins_count :: nat
  scenes :: "cgltf_scene list"
  scene :: "cgltf_scene option"

subsection \<open>Engine objects (Filament)\<close>

datatype PrimitiveType = POINTS | LINES | TRIANGLES

datatype IndexType = USHORT | UINT

datatype VertexAttribute =
  POSITION | TANGENTS | COLOR | UV0_attr | UV1_attr | BONE_INDICES | BONE_WEIGHTS

datatype AttributeType =
  BYTE | BYTE2 | BYTE3 | BYTE4 | UBYTE | UBYTE2 | UBYTE3 | UBYTE4
  | SHORT | SHORT2 | SHORT3 | SHORT4 | USHORT_t | USHORT2 | USHORT3 | USHORT4
  | INT_t | UINT_t | FLOAT | FLOAT2 | FLOAT3 | FLOAT4 | HALF | HALF2 | HALF3 | HALF4

text \<open>
  \<^verbatim>\<open>UvSet\<close> is a byte-sized enumeration; \<open>UvOther\<close> stands for the byte values that are none
  of its three enumerators, which an uninitialised \<^verbatim>\<open>UvMap\<close> may hold.
\<close>

datatype UvSet = UNUSED | UV0 | UV1 | UvOther

type_synonym UvMap = "nat \<Rightarrow> UvSet"

datatype AlphaMode = OPAQUE | MASKED | TRANSPARENT

record MaterialKey =
  doubleSided :: bool
  key_unlit :: bool
  hasVertexColors :: bool
  hasBaseColorTexture :: bool
  hasMetallicRoughnessTexture :: bool
  hasNormalTexture :: bool
  hasOcclusionTexture :: bool
  hasEmissiveTexture :: bool
  alphaMode :: AlphaMode
  alphaMaskThreshold :: float
  baseColorUV :: uint8_t
  metallicRoughnessUV :: uint8_t
  emissiveUV :: uint8_t
  aoUV :: uint8_t
  normalUV :: uint8_t
  hasTextureTransforms :: bool

text \<open>What a \<^verbatim>\<open>VertexBuffer::Builder\<close> has been told when \<^verbatim>\<open>build\<close> is called.\<close>

record VertexBuffer =
  vb_bufferCount :: nat
  vb_vertexCount :: "uint32_t option"
  vb_attributes :: "(VertexAttribute \<times> nat \<times> AttributeType \<times> nat \<times> cgltf_size) list"
  vb_normalized :: "VertexAttribute list"

record IndexBuffer =
  ib_indexCount :: uint32_t
  ib_bufferType :: IndexType

datatype WrapMode = CLAMP_TO_EDGE | REPEAT | MIRRORED_REPEAT

datatype MagFilter = MAG_NEAREST | MAG_LINEAR

datatype MinFilter =
  MIN_NEAREST | MIN_LINEAR | NEAREST_MIPMAP_NEAREST | LINEAR_MIPMAP_NEAREST
  | NEAREST_MIPMAP_LINEAR | LINEAR_MIPMAP_LINEAR

record TextureSampler =
  wrapModeS :: WrapMode
  wrapModeT :: WrapMode
  magFilter :: MagFilter
  minFilter :: MinFilter

datatype ParamValue = PFloat float | PFloat3 float3 | PFloat4 float4 | PMat3 mat3f

text \<open>
  One entry of a \<^verbatim>\<open>RenderableManager::Builder\<close>. The primitive type of a geometry is
  \<open>None\<close> when the loader passes its local \<^verbatim>\<open>primType\<close> without having assigned it.
\<close>

record RenderableEntry =
  entry_material :: "nat option"
  entry_geometry :: "(PrimitiveType option \<times> nat option \<times> nat option) option"

record Renderable =
  r_entity :: nat
  r_entries :: "RenderableEntry list"
  r_boundingBox :: Aabb
  r_culling :: bool
  r_castShadows :: bool
  r_receiveShadows :: bool
  r_skinning :: "nat option"

text \<open>
  The engine: the number of entities created so far, the world transform of every entity
  that has a transform component, and the objects created so far.
\<close>

record Engine =
  entityCount :: nat
  worldTransforms :: "nat \<Rightarrow> mat4f option"
  vertexBuffers :: "VertexBuffer list"
  indexBuffers :: "IndexBuffer list"
  instances :: "nat list"
  parameters :: "(nat \<times> string \<times> ParamValue) list"
  renderables :: "Renderable list"

subsection \<open>The asset and the loader\<close>

record BufferBinding =
  bb_uri :: "string option"
  bb_totalSize :: uint32_t
  bb_bufferIndex :: nat
  bb_offset :: uint32_t
  bb_size :: uint32_t
  bb_data :: "nat option"
  bb_vertexBuffer :: "nat option"
  bb_indexBuffer :: "nat option"
  convertBytesToShorts :: bool
  generateTrivialIndices :: bool

record TextureBinding =
  tb_uri :: "string option"
  tb_totalSize :: uint32_t
  tb_mimeType :: "string option"
  tb_data :: "nat option"
  tb_materialInstance :: nat
  tb_materialParameter :: string
  tb_sampler :: TextureSampler
  tb_srgb :: bool

record Skin =
  name :: "string option"
  skin_joints :: "nat list"
  targets :: "nat list"

record Primitive =
  vertices :: "nat option"
  prim_indices :: "nat option"
  aabb :: Aabb

text \<open>\<open>mPrimMap\<close> is keyed by the address of a source primitive: its mesh and its index.\<close>

record FFilamentAsset =
  mRoot :: nat
  mEntities :: "nat list"
  mNodeMap :: "nat \<Rightarrow> nat option"
  mSkins :: "Skin list"
  mMaterialInstances :: "nat list"
  mBufferBindings :: "BufferBinding list"
  mTextureBindings :: "TextureBinding list"
  mBoundingBox :: Aabb
  mPrimMap :: "nat \<times> nat \<Rightarrow> nat option"

record FAssetLoader =
  mCastShadows :: bool
  mReceiveShadows :: bool
  engine :: Engine
  mMatInstanceCache :: "intptr_t \<Rightarrow> nat option"
  mMeshCache :: "nat \<Rightarrow> Primitive list option"
  mError :: bool

text \<open>The loader while an import runs: \<^verbatim>\<open>mResult\<close> points to the asset under construction.\<close>

record state = FAssetLoader +
  mResult :: FFilamentAsset

datatype error = NullPointerDereference | OutOfBounds | OutOfRange | InvalidInstance

text \<open>
  The parts of the repository and of its libraries that \<^verbatim>\<open>AssetLoader.cpp\<close> calls and that
  are not in this file, taken as parameters:
  the conversions of \<^verbatim>\<open>GltfEnums.h\<close> (\<open>None\<close> when they return false),
  \<^verbatim>\<open>cgltf_calc_size\<close>, \<^verbatim>\<open>MaterialGenerator::getOrCreateMaterial\<close> (the material, the
  adjusted key and the UV map it writes), \<^verbatim>\<open>mat4f::compose\<close>, the default-constructed
  \<^verbatim>\<open>Aabb\<close> and \<^verbatim>\<open>mat3f\<close>, and the contents of the uninitialised local \<^verbatim>\<open>UvMap\<close> of
  \<^verbatim>\<open>createRenderable\<close> (for the entity and the index of the primitive).
\<close>

record externals =
  getPrimitiveType :: "cgltf_primitive_type \<Rightarrow> PrimitiveType option"
  getIndexType :: "cgltf_component_type \<Rightarrow> IndexType option"
  getVertexAttrType :: "cgltf_attribute_type \<Rightarrow> VertexAttribute option"
  getElementType :: "cgltf_type \<Rightarrow> cgltf_component_type \<Rightarrow> AttributeType option"
  cgltf_calc_size :: "cgltf_type \<Rightarrow> cgltf_component_type \<Rightarrow> cgltf_size"
  getOrCreateMaterial :: "MaterialKey \<Rightarrow> nat \<times> MaterialKey \<times> UvMap"
  compose :: "float3 \<Rightarrow> float4 \<Rightarrow> float3 \<Rightarrow> mat4f"
  getWrapMode :: "int \<Rightarrow> WrapMode"
  getMagFilter :: "int \<Rightarrow> MagFilter"
  getMinFilter :: "int \<Rightarrow> MinFilter"
  Aabb_default :: Aabb
  mat3f_default :: mat3f
  uninitialized_uvmap :: "nat \<Rightarrow> nat \<Rightarrow> UvMap"

subsection \<open>Engine calls\<close>

text \<open>
  Modelled from the spec: the engine's entity manager, buffer builders and material
  instances are outside \<^verbatim>\<open>AssetLoader.cpp\<close>; section 6 of the specification only requires
  that they create objects. Each call appends the object to the engine's list and returns
  its handle, so every call yields a fresh handle.
\<close>

definition onEngine :: "(Engine \<Rightarrow> Engine) \<Rightarrow> state \<Rightarrow> state" where
  "onEngine f s = s\<lparr>engine := f (engine s)\<rparr>"

definition onResult :: "(FFilamentAsset \<Rightarrow> FFilamentAsset) \<Rightarrow> state \<Rightarrow> state" where
  "onResult f s = s\<lparr>mResult := f (mResult s)\<rparr>"

definition EntityManager_create :: "state \<Rightarrow> nat \<times> state" where
  "EntityManager_create s =
     (Suc (entityCount (engine s)), onEngine (\<lambda>e. e\<lparr>entityCount := Suc (entityCount e)\<rparr>) s)"

definition IndexBuffer_build :: "IndexBuffer \<Rightarrow> state \<Rightarrow> nat \<times> state" where
  "IndexBuffer_build ibb s =
     (length (indexBuffers (engine s)),
      onEngine (\<lambda>e. e\<lparr>indexBuffers := indexBuffers e @ [ibb]\<rparr>) s)"

definition VertexBuffer_build :: "VertexBuffer \<Rightarrow> state \<Rightarrow> nat \<times> state" where
  "VertexBuffer_build vbb s =
     (length (vertexBuffers (engine s)),
      onEngine (\<lambda>e. e\<lparr>vertexBuffers := vertexBuffers e @ [vbb]\<rparr>) s)"

definition createInstance :: "nat \<Rightarrow> state \<Rightarrow> nat \<times> state" where
  "createInstance mat s =
     (length (instances (engine s)), onEngine (\<lambda>e. e\<lparr>instances := instances e @ [mat]\<rparr>) s)"

definition setParameter :: "nat \<Rightarrow> string \<Rightarrow> ParamValue \<Rightarrow> state \<Rightarrow> state" where
  "setParameter mi pname v = onEngine (\<lambda>e. e\<lparr>parameters := parameters e @ [(mi, pname, v)]\<rparr>)"

text \<open>
  Modelled from the spec: the transform manager (section 6: parent linkage, world-transform
  composition). A component created under a parent that has a component gets the parent's
  world transform times its local transform; otherwise its local transform.
\<close>

definition TransformManager_create :: "nat \<Rightarrow> nat \<Rightarrow> mat4f \<Rightarrow> state \<Rightarrow> state" where
  "TransformManager_create entity parent localTransform =
     onEngine (\<lambda>e. e\<lparr>worldTransforms := (worldTransforms e)(entity \<mapsto>
        (case worldTransforms e parent of
           None \<Rightarrow> localTransform
         | Some parentWorld \<Rightarrow> mul_mat4 parentWorld localTransform))\<rparr>)"

definition addBufferBinding :: "BufferBinding \<Rightarrow> state \<Rightarrow> state" where
  "addBufferBinding b = onResult (\<lambda>a. a\<lparr>mBufferBindings := mBufferBindings a @ [b]\<rparr>)"

subsection \<open>computeBindingSize, computeBindingOffset\<close>

definition computeBindingSize :: "externals \<Rightarrow> cgltf_accessor \<Rightarrow> uint32_t" where
  "computeBindingSize X accessor =
     (let element_size = cgltf_calc_size X (acc_type accessor) (component_type accessor)
      in ucast (acc_stride accessor * (acc_count accessor - 1) + element_size))"

definition computeBindingOffset :: "cgltf_accessor \<Rightarrow> error + uint32_t" where
  "computeBindingOffset accessor =
     (case buffer_view accessor of
        None \<Rightarrow> Inl NullPointerDereference
      | Some bv \<Rightarrow> Inr (ucast (acc_offset accessor + bv_offset bv)))"

subsection \<open>createPrimitive\<close>

text \<open>
  The binding of an accessor's bytes, for a vertex buffer slot or for an index buffer. It
  dereferences the accessor's buffer view.
\<close>

definition accessorBinding ::
  "externals \<Rightarrow> cgltf_accessor \<Rightarrow> nat \<Rightarrow> nat option \<Rightarrow> nat option \<Rightarrow> bool \<Rightarrow> error + BufferBinding"
where
  "accessorBinding X accessor slot vb ib conv =
     (case buffer_view accessor of
        None \<Rightarrow> Inl NullPointerDereference
      | Some bv \<Rightarrow>
          (case computeBindingOffset accessor of
             Inl e \<Rightarrow> Inl e
           | Inr off \<Rightarrow>
               Inr \<lparr>bb_uri = buffer_uri (bv_buffer bv),
                    bb_totalSize = ucast (buffer_size (bv_buffer bv)),
                    bb_bufferIndex = slot,
                    bb_offset = off,
                    bb_size = computeBindingSize X accessor,
                    bb_data = Some (buffer_addr (bv_buffer bv)),
                    bb_vertexBuffer = vb,
                    bb_indexBuffer = ib,
                    convertBytesToShorts = conv,
                    generateTrivialIndices = False\<rparr>))"

text \<open>
  The first part of \<^verbatim>\<open>createPrimitive\<close>: the index buffer. The result is \<open>None\<close> where the
  source returns false.
\<close>

definition createIndices :: "externals \<Rightarrow> cgltf_primitive \<Rightarrow> state \<Rightarrow> error + (nat option \<times> state)"
where
  "createIndices X inPrim s =
     (case indices inPrim of
        Some indicesAccessor \<Rightarrow>
          (case getIndexType X (component_type indicesAccessor) of
             None \<Rightarrow> Inr (None, s)
           | Some indexType \<Rightarrow>
               (let (ib, s1) = IndexBuffer_build
                       \<lparr>ib_indexCount = ucast (acc_count indicesAccessor),
                        ib_bufferType = indexType\<rparr> s
                in case accessorBinding X indicesAccessor 0 None (Some ib)
                          (component_type indicesAccessor = cgltf_component_type_r_8u) of
                     Inl e \<Rightarrow> Inl e
                   | Inr b \<Rightarrow> Inr (Some ib, addBufferBinding b s1)))
      | None \<Rightarrow>
          (case attributes inPrim of
             [] \<Rightarrow> Inl OutOfBounds
           | a0 # _ \<Rightarrow>
               (let vertexCount = acc_count (attr_data a0);
                    (ib, s1) = IndexBuffer_build
                       \<lparr>ib_indexCount = ucast vertexCount, ib_bufferType = UINT\<rparr> s
                in Inr (Some ib, addBufferBinding
                     \<lparr>bb_uri = None, bb_totalSize = 0, bb_bufferIndex = 0, bb_offset = 0,
                      bb_size = ucast (vertexCount * 4), bb_data = None,
                      bb_vertexBuffer = None, bb_indexBuffer = Some ib,
                      convertBytesToShorts = False, generateTrivialIndices = True\<rparr> s1))))"

text \<open>
  The first loop over the attributes: it declares the attributes of the vertex buffer and
  expands the bounding box of the primitive. The first component is False where the
  source returns false; the box keeps what was written to \<^verbatim>\<open>outPrim->aabb\<close> before.
\<close>

fun declareAttributes ::
  "externals \<Rightarrow> UvMap \<Rightarrow> cgltf_attribute list \<Rightarrow> nat \<Rightarrow> VertexBuffer \<Rightarrow> Aabb
     \<Rightarrow> bool \<times> VertexBuffer \<times> Aabb"
where
  "declareAttributes X uvmap [] slot vbb box = (True, vbb, box)"
| "declareAttributes X uvmap (inputAttribute # rest) slot vbb box =
     (let inputAccessor = attr_data inputAttribute in
      if attr_type inputAttribute = cgltf_attribute_type_normal then
        declareAttributes X uvmap rest (Suc slot)
          (vbb\<lparr>vb_attributes := vb_attributes vbb @ [(TANGENTS, slot, SHORT4, 0, 0)],
               vb_normalized := vb_normalized vbb @ [TANGENTS]\<rparr>) box
      else if attr_type inputAttribute = cgltf_attribute_type_tangent then
        declareAttributes X uvmap rest (Suc slot) vbb box
      else
        (case getVertexAttrType X (attr_type inputAttribute) of
           None \<Rightarrow> (False, vbb, box)
         | Some semantic0 \<Rightarrow>
             (let uvset = uvmap (attr_index inputAttribute) in
              if attr_type inputAttribute = cgltf_attribute_type_texcoord \<and> uvset = UNUSED then
                declareAttributes X uvmap rest (Suc slot) vbb box
              else
                (let semantic =
                       (if attr_type inputAttribute = cgltf_attribute_type_texcoord then
                          (case uvset of UV0 \<Rightarrow> UV0_attr | UV1 \<Rightarrow> UV1_attr | _ \<Rightarrow> semantic0)
                        else semantic0);
                     vbb1 = vbb\<lparr>vb_vertexCount := Some (ucast (acc_count inputAccessor))\<rparr>;
                     box1 =
                       (if attr_type inputAttribute = cgltf_attribute_type_position then
                          \<lparr>aabb_min = min3 (aabb_min box) (acc_min inputAccessor),
                           aabb_max = max3 (aabb_max box) (acc_max inputAccessor)\<rparr>
                        else box)
                 in case getElementType X (acc_type inputAccessor) (component_type inputAccessor) of
                      None \<Rightarrow> (False, vbb1, box1)
                    | Some atype \<Rightarrow>
                        if is_sparse inputAccessor then (False, vbb1, box1)
                        else
                          declareAttributes X uvmap rest (Suc slot)
                            (vbb1\<lparr>vb_attributes := vb_attributes vbb1 @
                                     [(semantic, slot, atype, 0, acc_stride inputAccessor)],
                                  vb_normalized := vb_normalized vbb1 @
                                     (if normalized inputAccessor then [semantic] else [])\<rparr>)
                            box1))))"

text \<open>The second loop over the attributes: one binding for every attribute it does not skip.\<close>

fun bindAttributes ::
  "externals \<Rightarrow> UvMap \<Rightarrow> nat \<Rightarrow> cgltf_attribute list \<Rightarrow> nat \<Rightarrow> state \<Rightarrow> error + state"
where
  "bindAttributes X uvmap vb [] slot s = Inr s"
| "bindAttributes X uvmap vb (inputAttribute # rest) slot s =
     (if attr_type inputAttribute = cgltf_attribute_type_normal
         \<or> attr_type inputAttribute = cgltf_attribute_type_tangent then
        bindAttributes X uvmap vb rest (Suc slot) s
      else if attr_type inputAttribute = cgltf_attribute_type_texcoord
         \<and> uvmap (attr_index inputAttribute) = UNUSED then
        bindAttributes X uvmap vb rest (Suc slot) s
      else
        (case accessorBinding X (attr_data inputAttribute) slot (Some vb) None False of
           Inl e \<Rightarrow> Inl e
         | Inr b \<Rightarrow> bindAttributes X uvmap vb rest (Suc slot) (addBufferBinding b s)))"

text \<open>
  \<^verbatim>\<open>createPrimitive\<close>. \<open>addr\<close> is the address of \<open>inPrim\<close> (its mesh and index); the
  result holds the returned flag and the updated \<^verbatim>\<open>*outPrim\<close>.
\<close>

definition createPrimitive ::
  "externals \<Rightarrow> nat \<times> nat \<Rightarrow> cgltf_primitive \<Rightarrow> Primitive \<Rightarrow> UvMap \<Rightarrow> state
     \<Rightarrow> error + (bool \<times> Primitive \<times> state)"
where
  "createPrimitive X addr inPrim outPrim uvmap s =
     (case createIndices X inPrim s of
        Inl e \<Rightarrow> Inl e
      | Inr (None, s1) \<Rightarrow> Inr (False, outPrim, s1)
      | Inr (Some ib, s1) \<Rightarrow>
          (case declareAttributes X uvmap (attributes inPrim) 0
                  \<lparr>vb_bufferCount = length (attributes inPrim), vb_vertexCount = None,
                   vb_attributes = [], vb_normalized = []\<rparr> (aabb outPrim) of
             (False, vbb, box) \<Rightarrow> Inr (False, outPrim\<lparr>aabb := box\<rparr>, s1)
           | (True, vbb, box) \<Rightarrow>
               (let (vb, s2) = VertexBuffer_build vbb s1;
                    s3 = onResult (\<lambda>a. a\<lparr>mPrimMap := (mPrimMap a)(addr \<mapsto> vb)\<rparr>) s2
                in case bindAttributes X uvmap vb (attributes inPrim) 0 s3 of
                     Inl e \<Rightarrow> Inl e
                   | Inr s4 \<Rightarrow>
                       Inr (True,
                            outPrim\<lparr>aabb := box, prim_indices := Some ib, vertices := Some vb\<rparr>,
                            s4))))"

subsection \<open>createMaterialInstance, addTextureBinding\<close>

definition ebind :: "error + 'a \<Rightarrow> ('a \<Rightarrow> error + 'b) \<Rightarrow> error + 'b" where
  "ebind m f = (case m of Inl e \<Rightarrow> Inl e | Inr x \<Rightarrow> f x)"

definition addTextureBinding ::
  "externals \<Rightarrow> nat \<Rightarrow> string \<Rightarrow> cgltf_texture \<Rightarrow> bool \<Rightarrow> state \<Rightarrow> state"
where
  "addTextureBinding X materialInstance parameterName srcTexture srgb s =
     (case image srcTexture of
        None \<Rightarrow> s
      | Some img \<Rightarrow>
          (let dstSampler =
                 (case sampler srcTexture of
                    Some srcSampler \<Rightarrow>
                      \<lparr>wrapModeS = getWrapMode X (wrap_s srcSampler),
                       wrapModeT = getWrapMode X (wrap_t srcSampler),
                       magFilter = getMagFilter X (mag_filter srcSampler),
                       minFilter = getMinFilter X (min_filter srcSampler)\<rparr>
                  | None \<Rightarrow>
                      \<lparr>wrapModeS = REPEAT, wrapModeT = REPEAT,
                       magFilter = MAG_LINEAR, minFilter = LINEAR_MIPMAP_LINEAR\<rparr>);
               bv = image_buffer_view img
           in onResult (\<lambda>a. a\<lparr>mTextureBindings := mTextureBindings a @
                [\<lparr>tb_uri = image_uri img,
                  tb_totalSize = (case bv of Some b \<Rightarrow> ucast (buffer_size (bv_buffer b)) | None \<Rightarrow> 0),
                  tb_mimeType = mime_type img,
                  tb_data = (case bv of Some b \<Rightarrow> Some (buffer_addr (bv_buffer b)) | None \<Rightarrow> None),
                  tb_materialInstance = materialInstance,
                  tb_materialParameter = parameterName,
                  tb_sampler = dstSampler,
                  tb_srgb = srgb\<rparr>]\<rparr>) s))"

text \<open>
  One of the five texture blocks of \<^verbatim>\<open>createMaterialInstance\<close>: when the key has the
  texture, its binding and, when the key has texture transforms, the UV matrix parameter,
  which the source sets to a default-constructed \<^verbatim>\<open>mat3f()\<close>.
\<close>

definition textureSlot ::
  "externals \<Rightarrow> MaterialKey \<Rightarrow> bool \<Rightarrow> nat \<Rightarrow> string \<Rightarrow> string \<Rightarrow> cgltf_texture_view \<Rightarrow> bool
     \<Rightarrow> state \<Rightarrow> error + state"
where
  "textureSlot X matkey present mi mapName matrixName view srgb s =
     (if \<not> present then Inr s
      else
        (case texture view of
           None \<Rightarrow> Inl NullPointerDereference
         | Some t \<Rightarrow>
             (let s1 = addTextureBinding X mi mapName t srgb s
              in Inr (if hasTextureTransforms matkey
                      then setParameter mi matrixName (PMat3 (mat3f_default X)) s1
                      else s1))))"

text \<open>A \<^verbatim>\<open>MaterialKey\<close> whose members are all zero.\<close>

definition MaterialKey_zero :: MaterialKey where
  "MaterialKey_zero =
     \<lparr>doubleSided = False, key_unlit = False, hasVertexColors = False,
      hasBaseColorTexture = False, hasMetallicRoughnessTexture = False,
      hasNormalTexture = False, hasOcclusionTexture = False, hasEmissiveTexture = False,
      alphaMode = OPAQUE, alphaMaskThreshold = 0, baseColorUV = 0, metallicRoughnessUV = 0,
      emissiveUV = 0, aoUV = 0, normalUV = 0, hasTextureTransforms = False\<rparr>"

definition materialKey :: "cgltf_material \<Rightarrow> bool \<Rightarrow> MaterialKey" where
  "materialKey inputMat vertexColor =
     (let pbrConfig = pbr_metallic_roughness inputMat;
          hasTextureTransforms' =
            (has_transform (base_color_texture pbrConfig)
             \<or> has_transform (metallic_roughness_texture pbrConfig)
             \<or> has_transform (normal_texture inputMat)
             \<or> has_transform (occlusion_texture inputMat)
             \<or> has_transform (emissive_texture inputMat));
          matkey =
            \<lparr>doubleSided = double_sided inputMat,
             key_unlit = unlit inputMat,
             hasVertexColors = vertexColor,
             hasBaseColorTexture = (texture (base_color_texture pbrConfig) \<noteq> None),
             hasMetallicRoughnessTexture = (texture (metallic_roughness_texture pbrConfig) \<noteq> None),
             hasNormalTexture = (texture (normal_texture inputMat) \<noteq> None),
             hasOcclusionTexture = (texture (occlusion_texture inputMat) \<noteq> None),
             hasEmissiveTexture = (texture (emissive_texture inputMat) \<noteq> None),
             alphaMode = OPAQUE,
             alphaMaskThreshold = 0.5,
             baseColorUV = word_of_int (texcoord (base_color_texture pbrConfig)),
             metallicRoughnessUV = word_of_int (texcoord (metallic_roughness_texture pbrConfig)),
             emissiveUV = word_of_int (texcoord (emissive_texture inputMat)),
             aoUV = word_of_int (texcoord (occlusion_texture inputMat)),
             normalUV = word_of_int (texcoord (normal_texture inputMat)),
             hasTextureTransforms = hasTextureTransforms'\<rparr>
      in case alpha_mode inputMat of
           cgltf_alpha_mode_opaque \<Rightarrow> matkey\<lparr>alphaMode := OPAQUE\<rparr>
         | cgltf_alpha_mode_mask \<Rightarrow>
             matkey\<lparr>alphaMode := MASKED, alphaMaskThreshold := alpha_cutoff inputMat\<rparr>
         | cgltf_alpha_mode_blend \<Rightarrow> matkey\<lparr>alphaMode := TRANSPARENT\<rparr>)"

text \<open>
  \<^verbatim>\<open>createMaterialInstance\<close>. \<open>inputMat\<close> is the address of the material (0 for null),
  \<open>uvmap\<close> the contents of \<^verbatim>\<open>*uvmap\<close> at the call; the result holds the returned instance and
  the contents of \<^verbatim>\<open>*uvmap\<close> after the call.
\<close>

definition createMaterialInstance ::
  "externals \<Rightarrow> cgltf_data \<Rightarrow> intptr_t \<Rightarrow> UvMap \<Rightarrow> bool \<Rightarrow> state \<Rightarrow> error + (nat \<times> UvMap \<times> state)"
where
  "createMaterialInstance X d inputMat uvmap vertexColor s =
     (let key = inputMat XOR (if vertexColor then 1 else 0) in
      case mMatInstanceCache s key of
        Some mi \<Rightarrow> Inr (mi, uvmap, s)
      | None \<Rightarrow>
          if inputMat = 0 then
            (let (mat, matkey, uvmap1) = getOrCreateMaterial X (MaterialKey_zero\<lparr>key_unlit := True\<rparr>);
                 (mi, s1) = createInstance mat s;
                 s2 = onResult (\<lambda>a. a\<lparr>mMaterialInstances := mMaterialInstances a @ [mi]\<rparr>) s1
             in Inr (mi, uvmap1, s2\<lparr>mMatInstanceCache := (mMatInstanceCache s2)(0 \<mapsto> mi)\<rparr>))
          else
            (let m = material_at d inputMat;
                 pbrConfig = pbr_metallic_roughness m;
                 (mat, matkey, uvmap1) = getOrCreateMaterial X (materialKey m vertexColor);
                 (mi, s1) = createInstance mat s;
                 s2 = onResult (\<lambda>a. a\<lparr>mMaterialInstances := mMaterialInstances a @ [mi]\<rparr>) s1;
                 s3 = setParameter mi ''emissiveFactor'' (PFloat3 (emissive_factor m)) s2;
                 s4 = setParameter mi ''normalScale'' (PFloat (tv_scale (normal_texture m))) s3;
                 s5 = setParameter mi ''aoStrength'' (PFloat (tv_scale (occlusion_texture m))) s4;
                 s6 = setParameter mi ''baseColorFactor'' (PFloat4 (base_color_factor pbrConfig)) s5;
                 s7 = setParameter mi ''metallicFactor'' (PFloat (metallic_factor pbrConfig)) s6;
                 s8 = setParameter mi ''roughnessFactor'' (PFloat (roughness_factor pbrConfig)) s7
             in ebind (textureSlot X matkey (hasBaseColorTexture matkey) mi
                         ''baseColorMap'' ''baseColorUvMatrix'' (base_color_texture pbrConfig) True s8)
                (\<lambda>s9. ebind (textureSlot X matkey (hasMetallicRoughnessTexture matkey) mi
                         ''metallicRoughnessMap'' ''metallicRoughnessUvMatrix''
                         (metallic_roughness_texture pbrConfig) False s9)
                (\<lambda>s10. ebind (textureSlot X matkey (hasNormalTexture matkey) mi
                         ''normalMap'' ''normalUvMatrix'' (normal_texture m) False s10)
                (\<lambda>s11. ebind (textureSlot X matkey (hasOcclusionTexture matkey) mi
                         ''occlusionMap'' ''occlusionUvMatrix'' (occlusion_texture m) False s11)
                (\<lambda>s12. ebind (textureSlot X matkey (hasEmissiveTexture matkey) mi
                         ''emissiveMap'' ''emissiveUvMatrix'' (emissive_texture m) True s12)
                (\<lambda>s13. Inr (mi, uvmap1,
                          s13\<lparr>mMatInstanceCache := (mMatInstanceCache s13)(key \<mapsto> mi)\<rparr>))))))))"

fun primitiveHasVertexColor :: "cgltf_attribute list \<Rightarrow> bool" where
  "primitiveHasVertexColor [] = False"
| "primitiveHasVertexColor (inputAttribute # rest) =
     (if attr_type inputAttribute = cgltf_attribute_type_color then True
      else primitiveHasVertexColor rest)"

subsection \<open>createRenderable\<close>

text \<open>
  The loop of \<^verbatim>\<open>createRenderable\<close> over the primitives of the mesh, from \<open>index\<close> on.
  \<open>builder\<close> holds the entries of the renderable builder and \<open>box\<close> the local \<^verbatim>\<open>aabb\<close>.
  \<^verbatim>\<open>outputPrim\<close> points into the cache entry of the mesh.
\<close>

fun renderablePrimitives ::
  "externals \<Rightarrow> cgltf_data \<Rightarrow> nat \<Rightarrow> nat \<Rightarrow> cgltf_primitive list \<Rightarrow> nat \<Rightarrow> RenderableEntry list
     \<Rightarrow> Aabb \<Rightarrow> state \<Rightarrow> error + (RenderableEntry list \<times> Aabb \<times> state)"
where
  "renderablePrimitives X d entity mesh_addr [] index builder box s = Inr (builder, box, s)"
| "renderablePrimitives X d entity mesh_addr (inputPrim # rest) index builder box s =
     (let primType = getPrimitiveType X (prim_type inputPrim);
          hasVertexColor = primitiveHasVertexColor (attributes inputPrim)
      in case createMaterialInstance X d (material inputPrim)
                (uninitialized_uvmap X entity index) hasVertexColor s of
           Inl e \<Rightarrow> Inl e
         | Inr (mi, uvmap, s1) \<Rightarrow>
             (let builder1 = builder[index := (builder ! index)\<lparr>entry_material := Some mi\<rparr>] in
              case mMeshCache s1 mesh_addr of
                None \<Rightarrow> Inl OutOfBounds
              | Some outs \<Rightarrow>
                  if length outs \<le> index then Inl OutOfBounds
                  else
                    (let outputPrim = outs ! index in
                     case (if vertices outputPrim = None
                           then createPrimitive X (mesh_addr, index) inputPrim outputPrim uvmap s1
                           else Inr (True, outputPrim, s1)) of
                       Inl e \<Rightarrow> Inl e
                     | Inr (ok, outputPrim1, s2) \<Rightarrow>
                         (let s3 = s2\<lparr>mMeshCache :=
                                       (mMeshCache s2)(mesh_addr \<mapsto> outs[index := outputPrim1])\<rparr>
                          in if \<not> ok then
                               renderablePrimitives X d entity mesh_addr rest (Suc index) builder1 box
                                 (s3\<lparr>mError := True\<rparr>)
                             else
                               renderablePrimitives X d entity mesh_addr rest (Suc index)
                                 (builder1[index := (builder1 ! index)\<lparr>entry_geometry :=
                                     Some (primType, vertices outputPrim1, prim_indices outputPrim1)\<rparr>])
                                 \<lparr>aabb_min = min3 (aabb_min (aabb outputPrim1)) (aabb_min box),
                                  aabb_max = max3 (aabb_max (aabb outputPrim1)) (aabb_max box)\<rparr>
                                 s3))))"

definition createRenderable :: "externals \<Rightarrow> cgltf_data \<Rightarrow> nat \<Rightarrow> nat \<Rightarrow> state \<Rightarrow> error + state"
where
  "createRenderable X d node entity s =
     (case mesh (node_at d node) of
        None \<Rightarrow> Inl NullPointerDereference
      | Some mesh_addr \<Rightarrow>
          (case worldTransforms (engine s) entity of
             None \<Rightarrow> Inl InvalidInstance
           | Some worldTransform \<Rightarrow>
               (let nprims = length (primitives (mesh_at d mesh_addr));
                    s1 = (case mMeshCache s mesh_addr of
                            None \<Rightarrow> s\<lparr>mMeshCache := (mMeshCache s)(mesh_addr \<mapsto>
                                replicate nprims
                                  \<lparr>vertices = None, prim_indices = None, aabb = Aabb_default X\<rparr>)\<rparr>
                          | Some _ \<Rightarrow> s)
                in case renderablePrimitives X d entity mesh_addr (primitives (mesh_at d mesh_addr)) 0
                          (replicate nprims \<lparr>entry_material = None, entry_geometry = None\<rparr>)
                          (Aabb_default X) s1 of
                     Inl e \<Rightarrow> Inl e
                   | Inr (builder, box, s2) \<Rightarrow>
                       (let minpt = xyz (mul_mat4_vec4 worldTransform (float4_of (aabb_min box) 1));
                            maxpt = xyz (mul_mat4_vec4 worldTransform (float4_of (aabb_max box) 1));
                            s3 = onResult (\<lambda>a. a\<lparr>mBoundingBox :=
                                   \<lparr>aabb_min = min3 (aabb_min (mBoundingBox a)) minpt,
                                    aabb_max = max3 (aabb_max (mBoundingBox a)) maxpt\<rparr>\<rparr>) s2;
                            skinning = (case skin (node_at d node) of
                                          None \<Rightarrow> None
                                        | Some k \<Rightarrow> Some (length (joints (skin_at d k))))
                        in Inr (onEngine (\<lambda>e. e\<lparr>renderables := renderables e @
                                  [\<lparr>r_entity = entity, r_entries = builder, r_boundingBox = box,
                                    r_culling = False, r_castShadows = mCastShadows s3,
                                    r_receiveShadows = mReceiveShadows s3,
                                    r_skinning = skinning\<rparr>]\<rparr>) s3)))))"

subsection \<open>createEntity\<close>

text \<open>
  \<^verbatim>\<open>createEntity\<close> recurses over the children of a node; on a document whose child links
  form a cycle it does not return. The first argument bounds the depth of the recursion:
  the result is \<open>None\<close> when the bound is reached. \<open>createEntities\<close> is the loop over a list
  of nodes (the children of a node, or the roots of the scene) with a common parent.
\<close>

fun createEntity ::
  "nat \<Rightarrow> externals \<Rightarrow> cgltf_data \<Rightarrow> nat \<Rightarrow> nat \<Rightarrow> state \<Rightarrow> (error + state) option"
and createEntities ::
  "nat \<Rightarrow> externals \<Rightarrow> cgltf_data \<Rightarrow> nat list \<Rightarrow> nat \<Rightarrow> state \<Rightarrow> (error + state) option"
where
  "createEntity 0 X d node parent s = None"
| "createEntity (Suc n) X d node parent s =
     (let (entity, s1) = EntityManager_create s;
          localTransform =
            (if has_matrix (node_at d node) then node_matrix (node_at d node)
             else compose X (node_translation (node_at d node)) (node_rotation (node_at d node))
                    (node_scale (node_at d node)));
          s2 = TransformManager_create entity parent localTransform s1;
          s3 = onResult (\<lambda>a. a\<lparr>mEntities := mEntities a @ [entity],
                                 mNodeMap := (mNodeMap a)(node \<mapsto> entity)\<rparr>) s2
      in case (if mesh (node_at d node) \<noteq> None then createRenderable X d node entity s3
               else Inr s3) of
           Inl e \<Rightarrow> Some (Inl e)
         | Inr s4 \<Rightarrow> createEntities n X d (children (node_at d node)) entity s4)"
| "createEntities n X d [] parent s = Some (Inr s)"
| "createEntities n X d (node # rest) parent s =
     (case createEntity n X d node parent s of
        None \<Rightarrow> None
      | Some (Inl e) \<Rightarrow> Some (Inl e)
      | Some (Inr s1) \<Rightarrow> createEntities n X d rest parent s1)"

subsection \<open>importSkinningData, createAsset\<close>

fun resolveJoints :: "(nat \<Rightarrow> nat option) \<Rightarrow> nat list \<Rightarrow> error + nat list" where
  "resolveJoints nodeMap [] = Inr []"
| "resolveJoints nodeMap (joint # rest) =
     (case nodeMap joint of
        None \<Rightarrow> Inl OutOfRange
      | Some entity \<Rightarrow>
          (case resolveJoints nodeMap rest of
             Inl e \<Rightarrow> Inl e
           | Inr es \<Rightarrow> Inr (entity # es)))"

definition importSkinningData :: "FFilamentAsset \<Rightarrow> Skin \<Rightarrow> cgltf_skin \<Rightarrow> error + Skin" where
  "importSkinningData a dstSkin srcSkin =
     (let dstSkin1 = (case skin_name srcSkin of
                        Some n \<Rightarrow> dstSkin\<lparr>name := Some n\<rparr>
                      | None \<Rightarrow> dstSkin)
      in case resolveJoints (mNodeMap a) (joints srcSkin) of
           Inl e \<Rightarrow> Inl e
         | Inr es \<Rightarrow> Inr (dstSkin1\<lparr>skin_joints := es\<rparr>))"

text \<open>The loop of \<^verbatim>\<open>createAsset\<close> over the skins, from the skin at index \<open>i\<close> on.\<close>

fun importSkins :: "cgltf_data \<Rightarrow> nat list \<Rightarrow> FFilamentAsset \<Rightarrow> error + FFilamentAsset" where
  "importSkins d [] a = Inr a"
| "importSkins d (i # rest) a =
     (if length (mSkins a) \<le> i then Inl OutOfBounds
      else
        (case importSkinningData a (mSkins a ! i) (skin_at d i) of
           Inl e \<Rightarrow> Inl e
         | Inr sk \<Rightarrow> importSkins d rest (a\<lparr>mSkins := (mSkins a)[i := sk]\<rparr>)))"

text \<open>
  The loop of \<^verbatim>\<open>createAsset\<close> over the node array that fills the targets of the skins.
  \<^verbatim>\<open>mNodeMap[&node]\<close> inserts the null entity for a node that is not in the map.
\<close>

fun skinTargets :: "cgltf_data \<Rightarrow> nat list \<Rightarrow> FFilamentAsset \<Rightarrow> error + FFilamentAsset" where
  "skinTargets d [] a = Inr a"
| "skinTargets d (i # rest) a =
     (case skin (node_at d i) of
        None \<Rightarrow> skinTargets d rest a
      | Some skinIndex \<Rightarrow>
          (let entity = (case mNodeMap a i of Some e \<Rightarrow> e | None \<Rightarrow> 0);
               a1 = a\<lparr>mNodeMap := (mNodeMap a)(i \<mapsto> entity)\<rparr>
           in if length (mSkins a1) \<le> skinIndex then Inl OutOfBounds
              else skinTargets d rest
                     (a1\<lparr>mSkins := (mSkins a1)[skinIndex :=
                           (mSkins a1 ! skinIndex)\<lparr>targets := targets (mSkins a1 ! skinIndex) @ [entity]\<rparr>]\<rparr>)))"

definition new_FFilamentAsset :: "externals \<Rightarrow> FFilamentAsset" where
  "new_FFilamentAsset X =
     \<lparr>mRoot = 0, mEntities = [], mNodeMap = Map.empty, mSkins = [], mMaterialInstances = [],
      mBufferBindings = [], mTextureBindings = [], mBoundingBox = Aabb_default X,
      mPrimMap = Map.empty\<rparr>"

definition with_result :: "FAssetLoader \<Rightarrow> FFilamentAsset \<Rightarrow> state" where
  "with_result L a =
     \<lparr>mCastShadows = mCastShadows L, mReceiveShadows = mReceiveShadows L, engine = engine L,
      mMatInstanceCache = mMatInstanceCache L, mMeshCache = mMeshCache L, mError = mError L,
      mResult = a\<rparr>"

definition loader_of :: "state \<Rightarrow> FAssetLoader" where
  "loader_of s =
     \<lparr>mCastShadows = mCastShadows s, mReceiveShadows = mReceiveShadows s, engine = engine s,
      mMatInstanceCache = mMatInstanceCache s, mMeshCache = mMeshCache s, mError = mError s\<rparr>"

text \<open>The scene \<^verbatim>\<open>createAsset\<close> traverses: the default scene, else the first one.\<close>

definition selectScene :: "cgltf_data \<Rightarrow> cgltf_scene option" where
  "selectScene d =
     (case scene d of
        Some sc \<Rightarrow> Some sc
      | None \<Rightarrow> (case scenes d of [] \<Rightarrow> None | sc # _ \<Rightarrow> Some sc))"

text \<open>
  The traversal of \<^verbatim>\<open>createAsset\<close>: the root entity and \<^verbatim>\<open>createEntity\<close> on every root node
  of the scene.
\<close>

definition traverseScene ::
  "nat \<Rightarrow> externals \<Rightarrow> cgltf_data \<Rightarrow> cgltf_scene \<Rightarrow> state \<Rightarrow> (error + state) option"
where
  "traverseScene n X d sc s =
     (let (root, s1) = EntityManager_create s;
          s2 = onResult (\<lambda>a. a\<lparr>mRoot := root\<rparr>) s1;
          s3 = TransformManager_create root 0 mat4f_identity s2
      in createEntities n X d (scene_nodes sc) root s3)"

text \<open>
  What \<^verbatim>\<open>createAsset\<close> does after the traversal. \<open>result\<close> is \<^verbatim>\<open>mResult\<close>: null once the
  error flag has been seen set. The outcome is the final \<^verbatim>\<open>mResult\<close> and the loader.
\<close>

definition finishAsset ::
  "cgltf_data \<Rightarrow> state \<Rightarrow> error + (FFilamentAsset option \<times> FAssetLoader)"
where
  "finishAsset d s =
     (let result = (if mError s then None else Some (mResult s)) in
      case result of
        None \<Rightarrow> Inl NullPointerDereference
      | Some a \<Rightarrow>
          (let a1 = a\<lparr>mSkins := replicate (skins_count d)
                         \<lparr>name = None, skin_joints = [], targets = []\<rparr>\<rparr>
           in case importSkins d [0 ..< skins_count d] a1 of
                Inl e \<Rightarrow> Inl e
              | Inr a2 \<Rightarrow>
                  (case skinTargets d [0 ..< nodes_count d] a2 of
                     Inl e \<Rightarrow> Inl e
                   | Inr a3 \<Rightarrow>
                       Inr (Some a3,
                            (loader_of s)\<lparr>mMatInstanceCache := Map.empty,
                                          mMeshCache := Map.empty, mError := False\<rparr>))))"

text \<open>
  \<^verbatim>\<open>createAsset\<close>, with the bound \<open>n\<close> on the depth of the node hierarchy. The outcome is
  \<open>None\<close> when the bound is reached, an error when the loader crashes or throws, and else
  the pointer \<^verbatim>\<open>mResult\<close> it leaves and the loader.
\<close>

definition createAsset ::
  "nat \<Rightarrow> externals \<Rightarrow> cgltf_data \<Rightarrow> FAssetLoader
     \<Rightarrow> (error + (FFilamentAsset option \<times> FAssetLoader)) option"
where
  "createAsset n X srcAsset L =
     (case selectScene srcAsset of
        None \<Rightarrow> Some (Inr (Some (new_FFilamentAsset X), L))
      | Some sc \<Rightarrow>
          (case traverseScene n X srcAsset sc (with_result L (new_FFilamentAsset X)) of
             None \<Rightarrow> None
           | Some (Inl e) \<Rightarrow> Some (Inl e)
           | Some (Inr s) \<Rightarrow> Some (finishAsset srcAsset s)))"

section \<open>Specification predicates\<close>

text \<open>The byte size of one element of an accessor, as \<^verbatim>\<open>cgltf_calc_size\<close> gives it.\<close>

definition elementSize :: "externals \<Rightarrow> cgltf_accessor \<Rightarrow> cgltf_size" where
  "elementSize X a = cgltf_calc_size X (acc_type a) (component_type a)"

text \<open>
  The size of a binding is \<open>stride * (count - 1) + elementSize\<close>, computed in
  \<^verbatim>\<open>size_t\<close> and converted to \<^verbatim>\<open>uint32_t\<close>; it is that natural number when the accessor has an
  element and the number fits 32 bits.
\<close>

definition sizeFormula :: "externals \<Rightarrow> cgltf_accessor \<Rightarrow> BufferBinding \<Rightarrow> bool" where
  "sizeFormula X a b =
     (bb_size b = ucast (acc_stride a * (acc_count a - 1) + elementSize X a)
      \<and> (acc_count a \<noteq> 0
           \<and> unat (acc_stride a) * (unat (acc_count a) - 1) + unat (elementSize X a) < 2 ^ 32
         \<longrightarrow> unat (bb_size b)
               = unat (acc_stride a) * (unat (acc_count a) - 1) + unat (elementSize X a)))"

text \<open>The offset of a binding is the accessor's offset plus its buffer view's offset.\<close>

definition offsetFormula :: "cgltf_accessor \<Rightarrow> BufferBinding \<Rightarrow> bool" where
  "offsetFormula a b =
     (case buffer_view a of
        None \<Rightarrow> False
      | Some bv \<Rightarrow>
          bb_offset b = ucast (acc_offset a + bv_offset bv)
          \<and> (unat (acc_offset a) + unat (bv_offset bv) < 2 ^ 32
             \<longrightarrow> unat (bb_offset b) = unat (acc_offset a) + unat (bv_offset bv)))"

text \<open>
  A binding of a primitive that has source bytes comes from an accessor of the primitive:
  an index binding from the index accessor, a vertex binding from the accessor of the
  attribute in its slot.
\<close>

definition fromAccessor :: "externals \<Rightarrow> cgltf_primitive \<Rightarrow> BufferBinding \<Rightarrow> bool" where
  "fromAccessor X inPrim b =
     (case bb_indexBuffer b of
        Some ib \<Rightarrow>
          (case indices inPrim of
             None \<Rightarrow> False
           | Some a \<Rightarrow> sizeFormula X a b \<and> offsetFormula a b)
      | None \<Rightarrow>
          bb_bufferIndex b < length (attributes inPrim)
          \<and> sizeFormula X (attr_data (attributes inPrim ! bb_bufferIndex b)) b
          \<and> offsetFormula (attr_data (attributes inPrim ! bb_bufferIndex b)) b)"

text \<open>A binding that \<^verbatim>\<open>createPrimitive\<close> emits for the attribute of some slot from \<open>slot\<close> on.\<close>

definition attributeBinding ::
  "externals \<Rightarrow> nat \<Rightarrow> cgltf_attribute list \<Rightarrow> nat \<Rightarrow> BufferBinding \<Rightarrow> bool"
where
  "attributeBinding X vb attrs slot b =
     (bb_indexBuffer b = None \<and> bb_vertexBuffer b = Some vb
      \<and> \<not> generateTrivialIndices b \<and> \<not> convertBytesToShorts b
      \<and> slot \<le> bb_bufferIndex b \<and> bb_bufferIndex b < slot + length attrs
      \<and> sizeFormula X (attr_data (attrs ! (bb_bufferIndex b - slot))) b
      \<and> offsetFormula (attr_data (attrs ! (bb_bufferIndex b - slot))) b)"

definition isIndexBinding :: "BufferBinding \<Rightarrow> bool" where
  "isIndexBinding b = (bb_indexBuffer b \<noteq> None)"

text \<open>
  A binding that asks the resource loader for trivial indices and names no source bytes.
\<close>

definition syntheticBinding :: "BufferBinding \<Rightarrow> bool" where
  "syntheticBinding b =
     (generateTrivialIndices b \<and> bb_uri b = None \<and> bb_data b = None \<and> bb_offset b = 0
      \<and> bb_totalSize b = 0 \<and> \<not> convertBytesToShorts b
      \<and> bb_indexBuffer b \<noteq> None \<and> bb_vertexBuffer b = None)"

text \<open>The bindings that the first part of \<^verbatim>\<open>createPrimitive\<close> emits for the index buffer.\<close>

definition indexBindings ::
  "externals \<Rightarrow> cgltf_primitive \<Rightarrow> nat option \<Rightarrow> BufferBinding list \<Rightarrow> bool"
where
  "indexBindings X inPrim r new =
     (case indices inPrim of
        None \<Rightarrow> r \<noteq> None \<and> (\<exists>b. new = [b] \<and> syntheticBinding b \<and> bb_indexBuffer b = r)
      | Some a \<Rightarrow>
          (if getIndexType X (component_type a) = None then r = None \<and> new = []
           else r \<noteq> None
                \<and> (\<exists>b. new = [b] \<and> bb_indexBuffer b = r \<and> bb_vertexBuffer b = None
                      \<and> \<not> generateTrivialIndices b
                      \<and> convertBytesToShorts b = (component_type a = cgltf_component_type_r_8u)
                      \<and> sizeFormula X a b \<and> offsetFormula a b)))"

section \<open>Sample inputs\<close>

text \<open>
  Sample values for the parameters of the model, used to run the loader on concrete
  documents: the conversions accept the common glTF types, the material generator
  returns the key it is given and maps the first UV set.
\<close>

definition FLT_MAX :: float where
  "FLT_MAX = 340282346638528859811704183484516925440"

definition sampleExternals :: externals where
  "sampleExternals =
     \<lparr>getPrimitiveType = (\<lambda>t. case t of
          cgltf_primitive_type_points \<Rightarrow> Some POINTS
        | cgltf_primitive_type_lines \<Rightarrow> Some LINES
        | cgltf_primitive_type_triangles \<Rightarrow> Some TRIANGLES
        | _ \<Rightarrow> None),
      getIndexType = (\<lambda>c. case c of
          cgltf_component_type_r_8u \<Rightarrow> Some USHORT
        | cgltf_component_type_r_16u \<Rightarrow> Some USHORT
        | cgltf_component_type_r_32u \<Rightarrow> Some UINT
        | _ \<Rightarrow> None),
      getVertexAttrType = (\<lambda>t. case t of
          cgltf_attribute_type_position \<Rightarrow> Some POSITION
        | cgltf_attribute_type_texcoord \<Rightarrow> Some UV0_attr
        | cgltf_attribute_type_color \<Rightarrow> Some COLOR
        | cgltf_attribute_type_joints \<Rightarrow> Some BONE_INDICES
        | cgltf_attribute_type_weights \<Rightarrow> Some BONE_WEIGHTS
        | _ \<Rightarrow> None),
      getElementType = (\<lambda>t c.
          if c = cgltf_component_type_r_32f then
            (case t of
               cgltf_type_scalar \<Rightarrow> Some FLOAT
             | cgltf_type_vec2 \<Rightarrow> Some FLOAT2
             | cgltf_type_vec3 \<Rightarrow> Some FLOAT3
             | cgltf_type_vec4 \<Rightarrow> Some FLOAT4
             | _ \<Rightarrow> None)
          else None),
      cgltf_calc_size = (\<lambda>t c.
          (case c of
             cgltf_component_type_r_8 \<Rightarrow> 1 | cgltf_component_type_r_8u \<Rightarrow> 1
           | cgltf_component_type_r_16 \<Rightarrow> 2 | cgltf_component_type_r_16u \<Rightarrow> 2
           | cgltf_component_type_r_32u \<Rightarrow> 4 | cgltf_component_type_r_32f \<Rightarrow> 4
           | cgltf_component_type_invalid \<Rightarrow> 0)
          * (case t of
               cgltf_type_scalar \<Rightarrow> 1 | cgltf_type_vec2 \<Rightarrow> 2 | cgltf_type_vec3 \<Rightarrow> 3
             | cgltf_type_vec4 \<Rightarrow> 4 | cgltf_type_mat2 \<Rightarrow> 4 | cgltf_type_mat3 \<Rightarrow> 9
             | cgltf_type_mat4 \<Rightarrow> 16 | cgltf_type_invalid \<Rightarrow> 0)),
      getOrCreateMaterial = (\<lambda>k. (0, k, (\<lambda>i. if i = 0 then UV0 else UNUSED))),
      compose = (\<lambda>t r s. mat4f_identity),
      getWrapMode = (\<lambda>i. REPEAT),
      getMagFilter = (\<lambda>i. MAG_LINEAR),
      getMinFilter = (\<lambda>i. MIN_LINEAR),
      Aabb_default =
        \<lparr>aabb_min = Float3 FLT_MAX FLT_MAX FLT_MAX,
         aabb_max = Float3 (- FLT_MAX) (- FLT_MAX) (- FLT_MAX)\<rparr>,
      mat3f_default = Mat3f (Float3 1 0 0) (Float3 0 1 0) (Float3 0 0 1),
      uninitialized_uvmap = (\<lambda>entity index i. UvOther)\<rparr>"

text \<open>A loader as its constructor leaves it, on an engine that has created nothing yet.\<close>

definition emptyEngine :: Engine where
  "emptyEngine =
     \<lparr>entityCount = 0, worldTransforms = Map.empty, vertexBuffers = [], indexBuffers = [],
      instances = [], parameters = [], renderables = []\<rparr>"

definition new_FAssetLoader :: "Engine \<Rightarrow> FAssetLoader" where
  "new_FAssetLoader e =
     \<lparr>mCastShadows = True, mReceiveShadows = True, engine = e,
      mMatInstanceCache = Map.empty, mMeshCache = Map.empty, mError = False\<rparr>"

definition sampleState :: state where
  "sampleState = with_result (new_FAssetLoader emptyEngine) (new_FFilamentAsset sampleExternals)"

definition sampleBuffer :: cgltf_buffer where
  "sampleBuffer = \<lparr>buffer_addr = 0, buffer_uri = Some ''mesh.bin'', buffer_size = 1024\<rparr>"

definition positionAccessor :: cgltf_accessor where
  "positionAccessor =
     \<lparr>component_type = cgltf_component_type_r_32f, normalized = False,
      acc_type = cgltf_type_vec3, acc_offset = 8, acc_count = 3, acc_stride = 12,
      buffer_view = Some \<lparr>bv_buffer = sampleBuffer, bv_offset = 64\<rparr>,
      acc_min = Float3 0 0 0, acc_max = Float3 1 1 1, is_sparse = False\<rparr>"

definition byteIndexAccessor :: cgltf_accessor where
  "byteIndexAccessor =
     \<lparr>component_type = cgltf_component_type_r_8u, normalized = False,
      acc_type = cgltf_type_scalar, acc_offset = 0, acc_count = 3, acc_stride = 1,
      buffer_view = Some \<lparr>bv_buffer = sampleBuffer, bv_offset = 0\<rparr>,
      acc_min = Float3 0 0 0, acc_max = Float3 0 0 0, is_sparse = False\<rparr>"

definition positionAttribute :: cgltf_attribute where
  "positionAttribute =
     \<lparr>attr_type = cgltf_attribute_type_position, attr_index = 0, attr_data = positionAccessor\<rparr>"

definition plainPrimitive :: cgltf_primitive where
  "plainPrimitive =
     \<lparr>prim_type = cgltf_primitive_type_triangles, indices = None, material = 0,
      attributes = [positionAttribute]\<rparr>"

definition indexedPrimitive :: cgltf_primitive where
  "indexedPrimitive = plainPrimitive\<lparr>indices := Some byteIndexAccessor\<rparr>"

definition new_Primitive :: "externals \<Rightarrow> Primitive" where
  "new_Primitive X = \<lparr>vertices = None, prim_indices = None, aabb = Aabb_default X\<rparr>"

text \<open>Documents: a node, a texture view and a material with the defaults of glTF.\<close>

definition defaultNode :: cgltf_node where
  "defaultNode =
     \<lparr>children = [], skin = None, mesh = None, has_matrix = False,
      node_translation = Float3 0 0 0, node_rotation = Float4 0 0 0 1,
      node_scale = Float3 1 1 1, node_matrix = mat4f_identity\<rparr>"

definition defaultTextureView :: cgltf_texture_view where
  "defaultTextureView =
     \<lparr>texture = None, texcoord = 0, tv_scale = 1, has_transform = False,
      transform = \<lparr>tt_offset = (0, 0), tt_rotation = 0, tt_scale = (1, 1)\<rparr>\<rparr>"

definition defaultMaterial :: cgltf_material where
  "defaultMaterial =
     \<lparr>has_pbr_specular_glossiness = False,
      pbr_metallic_roughness =
        \<lparr>base_color_texture = defaultTextureView,
         metallic_roughness_texture = defaultTextureView,
         base_color_factor = Float4 1 1 1 1, metallic_factor = 1, roughness_factor = 1\<rparr>,
      normal_texture = defaultTextureView, occlusion_texture = defaultTextureView,
      emissive_texture = defaultTextureView, emissive_factor = Float3 0 0 0,
      alpha_mode = cgltf_alpha_mode_opaque, alpha_cutoff = 0.5, double_sided = False,
      unlit = False\<rparr>"

definition emptyDocument :: cgltf_data where
  "emptyDocument =
     \<lparr>node_at = (\<lambda>a. defaultNode), nodes_count = 0,
      mesh_at = (\<lambda>a. \<lparr>primitives = []\<rparr>),
      material_at = (\<lambda>a. defaultMaterial),
      skin_at = (\<lambda>a. \<lparr>skin_name = None, joints = []\<rparr>), skins_count = 0,
      scenes = [], scene = None\<rparr>"

text \<open>
  A document with one scene and one root node (at address 0) that has the local matrix
  \<open>m\<close> and the mesh at address 0, with the primitives \<open>ps\<close>.
\<close>

definition singleMeshDocument :: "cgltf_primitive list \<Rightarrow> mat4f \<Rightarrow> cgltf_data" where
  "singleMeshDocument ps m =
     emptyDocument
       \<lparr>node_at := (\<lambda>a. if a = 0 then defaultNode\<lparr>mesh := Some 0, has_matrix := True,
                                                   node_matrix := m\<rparr>
                          else defaultNode),
        nodes_count := 1,
        mesh_at := (\<lambda>a. \<lparr>primitives = ps\<rparr>),
        scenes := [\<lparr>scene_nodes = [0]\<rparr>]\<rparr>"

text \<open>The point reflection: every coordinate changes sign.\<close>

definition pointReflection :: mat4f where
  "pointReflection =
     Mat4f (Float4 (- 1) 0 0 0) (Float4 0 (- 1) 0 0) (Float4 0 0 (- 1) 0) (Float4 0 0 0 1)"

text \<open>
  The primitive \<open>plainPrimitive\<close> with a primitive type that \<^verbatim>\<open>getPrimitiveType\<close> rejects, and
  with positions stored as 16-bit integers, which \<^verbatim>\<open>getElementType\<close> rejects.
\<close>

definition lineLoopPrimitive :: cgltf_primitive where
  "lineLoopPrimitive = plainPrimitive\<lparr>prim_type := cgltf_primitive_type_line_loop\<rparr>"

definition shortPositionPrimitive :: cgltf_primitive where
  "shortPositionPrimitive =
     plainPrimitive\<lparr>attributes :=
       [positionAttribute\<lparr>attr_data :=
          positionAccessor\<lparr>component_type := cgltf_component_type_r_16\<rparr>\<rparr>]\<rparr>"

text \<open>
  A material at address 8 whose base colour texture has a texture transform: offset
  \<open>(1/2, 1/4)\<close>, no rotation, scale \<open>(2, 2)\<close>.
\<close>

definition sampleTexture :: cgltf_texture where
  "sampleTexture =
     \<lparr>texture_name = Some ''albedo'',
      image = Some \<lparr>image_uri = Some ''albedo.png'', image_buffer_view = None,
                    mime_type = None\<rparr>,
      sampler = None\<rparr>"

definition transformedMaterial :: cgltf_material where
  "transformedMaterial =
     defaultMaterial\<lparr>pbr_metallic_roughness :=
       (pbr_metallic_roughness defaultMaterial)\<lparr>base_color_texture :=
          defaultTextureView\<lparr>texture := Some sampleTexture, has_transform := True,
            transform := \<lparr>tt_offset = (1 / 2, 1 / 4), tt_rotation = 0, tt_scale = (2, 2)\<rparr>\<rparr>\<rparr>\<rparr>"

definition transformedDocument :: cgltf_data where
  "transformedDocument =
     emptyDocument\<lparr>material_at := (\<lambda>a. if a = 8 then transformedMaterial else defaultMaterial)\<rparr>"

text \<open>
  For comparison with the source, in the words of the specification: the axis-aligned box
  of a box transformed by a matrix is the smallest box that holds the images of its eight
  corners.
\<close>

definition corners :: "Aabb \<Rightarrow> float3 list" where
  "corners box =
     (case (aabb_min box, aabb_max box) of
        (Float3 a b c, Float3 x y z) \<Rightarrow>
          [Float3 a b c, Float3 x b c, Float3 a y c, Float3 x y c,
           Float3 a b z, Float3 x b z, Float3 a y z, Float3 x y z])"

definition spec_transformAabb :: "mat4f \<Rightarrow> Aabb \<Rightarrow> Aabb" where
  "spec_transformAabb m box =
     (let ps = map (\<lambda>p. xyz (mul_mat4_vec4 m (float4_of p 1))) (corners box)
      in \<lparr>aabb_min = fold min3 (tl ps) (hd ps), aabb_max = fold max3 (tl ps) (hd ps)\<rparr>)"

text \<open>
  The document \<open>singleMeshDocument\<close> with one skin whose joints are the nodes at the
  addresses \<open>js\<close>. Only the node at address 0 is in the scene.
\<close>

definition skinnedDocument :: "nat list \<Rightarrow> cgltf_data" where
  "skinnedDocument js =
     (singleMeshDocument [plainPrimitive] mat4f_identity)
       \<lparr>skin_at := (\<lambda>a. \<lparr>skin_name = Some ''rig'', joints = js\<rparr>), skins_count := 1\<rparr>"

section \<open>The steps of the traversal\<close>

text \<open>
  One iteration of the loop of \<^verbatim>\<open>createRenderable\<close>: what \<open>renderablePrimitives\<close> does for
  the primitive \<open>inputPrim\<close> at \<open>index\<close> before it goes on with the next one.
\<close>

definition primitiveStep ::
  "externals \<Rightarrow> cgltf_data \<Rightarrow> nat \<Rightarrow> nat \<Rightarrow> cgltf_primitive \<Rightarrow> nat \<Rightarrow> RenderableEntry list
     \<Rightarrow> Aabb \<Rightarrow> state \<Rightarrow> error + (RenderableEntry list \<times> Aabb \<times> state)"
where
  "primitiveStep X d entity mesh_addr inputPrim index builder box s =
     (case createMaterialInstance X d (material inputPrim)
             (uninitialized_uvmap X entity index)
             (primitiveHasVertexColor (attributes inputPrim)) s of
        Inl e \<Rightarrow> Inl e
      | Inr (mi, uvmap, s1) \<Rightarrow>
          (case mMeshCache s1 mesh_addr of
             None \<Rightarrow> Inl OutOfBounds
           | Some outs \<Rightarrow>
               if length outs \<le> index then Inl OutOfBounds
               else
                 (case (if vertices (outs ! index) = None
                        then createPrimitive X (mesh_addr, index) inputPrim (outs ! index) uvmap s1
                        else Inr (True, outs ! index, s1)) of
                    Inl e \<Rightarrow> Inl e
                  | Inr (ok, outputPrim1, s2) \<Rightarrow>
                      (let builder1 = builder[index := (builder ! index)\<lparr>entry_material := Some mi\<rparr>];
                           s3 = s2\<lparr>mMeshCache :=
                                  (mMeshCache s2)(mesh_addr \<mapsto> outs[index := outputPrim1])\<rparr>
                       in if \<not> ok then Inr (builder1, box, s3\<lparr>mError := True\<rparr>)
                          else
                            Inr (builder1[index := (builder1 ! index)\<lparr>entry_geometry :=
                                   Some (getPrimitiveType X (prim_type inputPrim),
                                         vertices outputPrim1, prim_indices outputPrim1)\<rparr>],
                                 \<lparr>aabb_min = min3 (aabb_min (aabb outputPrim1)) (aabb_min box),
                                  aabb_max = max3 (aabb_max (aabb outputPrim1)) (aabb_max box)\<rparr>,
                                 s3)))))"

text \<open>
  The visit of one node by \<^verbatim>\<open>createEntity\<close>, before it recurses into the children: the
  entity of the node and the state.
\<close>

definition visitNode ::
  "externals \<Rightarrow> cgltf_data \<Rightarrow> nat \<Rightarrow> nat \<Rightarrow> state \<Rightarrow> error + (nat \<times> state)"
where
  "visitNode X d node parent s =
     (let (entity, s1) = EntityManager_create s;
          localTransform =
            (if has_matrix (node_at d node) then node_matrix (node_at d node)
             else compose X (node_translation (node_at d node)) (node_rotation (node_at d node))
                    (node_scale (node_at d node)));
          s2 = TransformManager_create entity parent localTransform s1;
          s3 = onResult (\<lambda>a. a\<lparr>mEntities := mEntities a @ [entity],
                                 mNodeMap := (mNodeMap a)(node \<mapsto> entity)\<rparr>) s2
      in case (if mesh (node_at d node) \<noteq> None then createRenderable X d node entity s3
               else Inr s3) of
           Inl e \<Rightarrow> Inl e
         | Inr s4 \<Rightarrow> Inr (entity, s4))"

text \<open>
  The parts of the state that the properties of the traversal are about: the mesh cache
  with the buffers of the engine, and the entities, the node map, the skins, the
  renderables and the root entity.
\<close>

definition geometryOf :: "state \<Rightarrow> (nat \<Rightarrow> Primitive list option) \<times> VertexBuffer list \<times> IndexBuffer list"
where
  "geometryOf s = (mMeshCache s, vertexBuffers (engine s), indexBuffers (engine s))"

definition nodesOf ::
  "state \<Rightarrow> Renderable list \<times> nat \<times> (nat \<Rightarrow> mat4f option) \<times> (nat \<Rightarrow> nat option) \<times> nat list
     \<times> Skin list \<times> bool \<times> bool \<times> nat"
where
  "nodesOf s =
     (renderables (engine s), entityCount (engine s), worldTransforms (engine s),
      mNodeMap (mResult s), mEntities (mResult s), mSkins (mResult s),
      mCastShadows s, mReceiveShadows s, mRoot (mResult s))"

section \<open>Sharing of buffers between nodes\<close>










text \<open>
  A document with no default scene and two scenes: the root of the first scene is the
  node at address 0, the root of the second scene the node at address 1.
\<close>

definition twoSceneDocument :: cgltf_data where
  "twoSceneDocument =
     emptyDocument\<lparr>nodes_count := 2,
                   scenes := [\<lparr>scene_nodes = [0]\<rparr>, \<lparr>scene_nodes = [1]\<rparr>]\<rparr>"

text \<open>
  The entities of a traversal that has created the root entity \<open>rootEntity\<close>: the asset has
  that root, every entity created since is listed in the asset, and every node of the node
  map has one of the listed entities, which was created after the root.
\<close>

definition entitiesCreated :: "nat \<Rightarrow> state \<Rightarrow> bool" where
  "entitiesCreated rootEntity s =
     (mRoot (mResult s) = rootEntity
      \<and> entityCount (engine s) = rootEntity + length (mEntities (mResult s))
      \<and> (\<forall>node e. mNodeMap (mResult s) node = Some e \<longrightarrow>
            e \<in> set (mEntities (mResult s)) \<and> rootEntity < e))"

text \<open>
  An attribute that the second loop of \<^verbatim>\<open>createPrimitive\<close> binds: it skips normals,
  tangents and the texture coordinates of an unused set.
\<close>

definition boundAttribute :: "UvMap \<Rightarrow> cgltf_attribute \<Rightarrow> bool" where
  "boundAttribute uvmap a =
     (attr_type a \<noteq> cgltf_attribute_type_normal \<and> attr_type a \<noteq> cgltf_attribute_type_tangent
      \<and> \<not> (attr_type a = cgltf_attribute_type_texcoord \<and> uvmap (attr_index a) = UNUSED))"

text \<open>
  The vertex buffer is built and its attributes bound where the first loop over the
  attributes accepts every attribute.
\<close>

definition attributesAccepted :: "externals \<Rightarrow> cgltf_primitive \<Rightarrow> Primitive \<Rightarrow> UvMap \<Rightarrow> bool"
where
  "attributesAccepted X inPrim outPrim uvmap =
     fst (declareAttributes X uvmap (attributes inPrim) 0
            \<lparr>vb_bufferCount = length (attributes inPrim), vb_vertexCount = None,
             vb_attributes = [], vb_normalized = []\<rparr> (aabb outPrim))"

text \<open>
  The inputs on which \<^verbatim>\<open>createPrimitive\<close> returns: it reads the first attribute of a
  primitive with no index accessor, the buffer view of an index accessor whose type
  \<^verbatim>\<open>getIndexType\<close> accepts, and, once the vertex buffer is built, the buffer view of every
  attribute it binds.
\<close>

definition viewsPresent :: "cgltf_primitive \<Rightarrow> UvMap \<Rightarrow> bool" where
  "viewsPresent inPrim uvmap =
     list_all (\<lambda>a. \<not> boundAttribute uvmap a \<or> buffer_view (attr_data a) \<noteq> None)
       (attributes inPrim)"

definition createPrimitive_returns ::
  "externals \<Rightarrow> cgltf_primitive \<Rightarrow> Primitive \<Rightarrow> UvMap \<Rightarrow> bool"
where
  "createPrimitive_returns X inPrim outPrim uvmap =
     (case indices inPrim of
        None \<Rightarrow>
          attributes inPrim \<noteq> []
          \<and> (\<not> attributesAccepted X inPrim outPrim uvmap \<or> viewsPresent inPrim uvmap)
      | Some a \<Rightarrow>
          (case getIndexType X (component_type a) of
             None \<Rightarrow> True
           | Some t \<Rightarrow>
               buffer_view a \<noteq> None
               \<and> (\<not> attributesAccepted X inPrim outPrim uvmap \<or> viewsPresent inPrim uvmap)))"




section \<open>Buffer bindings of a primitive\<close>

lemma unat_binding_size:
  fixes st c e :: "64 word"
  assumes "c \<noteq> 0" and "unat st * (unat c - 1) + unat e < 2 ^ 32"
  shows "unat (ucast (st * (c - 1) + e) :: 32 word) = unat st * (unat c - 1) + unat e"
proof -
  have c1: "unat (c - 1) = unat c - 1"
    using assms(1) by (simp add: unat_minus_one)
  have lt: "unat st * (unat c - 1) + unat e < 2 ^ 64"
    using assms(2) by simp
  have "unat (st * (c - 1) + e) = (unat st * (unat c - 1) + unat e) mod 2 ^ 64"
    by (simp add: unat_word_ariths c1 mod_simps)
  also have "\<dots> = unat st * (unat c - 1) + unat e"
    using lt by simp
  finally have u: "unat (st * (c - 1) + e) = unat st * (unat c - 1) + unat e" .
  show ?thesis
    using assms(2) by (simp add: unsigned_ucast_eq take_bit_eq_mod u)
qed

lemma unat_binding_offset:
  fixes a b :: "64 word"
  assumes "unat a + unat b < 2 ^ 32"
  shows "unat (ucast (a + b) :: 32 word) = unat a + unat b"
proof -
  have lt: "unat a + unat b < 2 ^ 64"
    using assms by simp
  have "unat (a + b) = (unat a + unat b) mod 2 ^ 64"
    by (simp add: unat_word_ariths)
  then have u: "unat (a + b) = unat a + unat b"
    using lt by simp
  show ?thesis
    using assms by (simp add: unsigned_ucast_eq take_bit_eq_mod u)
qed

lemma accessorBinding_Inr:
  assumes "accessorBinding X a slot vb ib conv = Inr b"
  shows "sizeFormula X a b \<and> offsetFormula a b \<and> bb_bufferIndex b = slot
         \<and> bb_vertexBuffer b = vb \<and> bb_indexBuffer b = ib
         \<and> convertBytesToShorts b = conv \<and> \<not> generateTrivialIndices b"
proof -
  from assms obtain bv where bv: "buffer_view a = Some bv"
    by (auto simp: accessorBinding_def split: option.splits)
  with assms have b: "b = \<lparr>bb_uri = buffer_uri (bv_buffer bv),
                    bb_totalSize = ucast (buffer_size (bv_buffer bv)),
                    bb_bufferIndex = slot,
                    bb_offset = ucast (acc_offset a + bv_offset bv),
                    bb_size = computeBindingSize X a,
                    bb_data = Some (buffer_addr (bv_buffer bv)),
                    bb_vertexBuffer = vb,
                    bb_indexBuffer = ib,
                    convertBytesToShorts = conv,
                    generateTrivialIndices = False\<rparr>"
    by (simp add: accessorBinding_def computeBindingOffset_def)
  have "sizeFormula X a b"
    by (simp add: b sizeFormula_def computeBindingSize_def elementSize_def unat_binding_size)
  moreover have "offsetFormula a b"
    by (simp add: b bv offsetFormula_def unat_binding_offset)
  ultimately show ?thesis by (simp add: b)
qed

lemma bindings_addBufferBinding [simp]:
  "mBufferBindings (mResult (addBufferBinding b s)) = mBufferBindings (mResult s) @ [b]"
  by (simp add: addBufferBinding_def onResult_def)

lemma bindings_onEngine [simp]:
  "mBufferBindings (mResult (onEngine f s)) = mBufferBindings (mResult s)"
  by (simp add: onEngine_def)

lemma attributeBinding_Cons:
  assumes "attributeBinding X vb rest (Suc slot) b"
  shows "attributeBinding X vb (a # rest) slot b"
proof -
  from assms have "Suc slot \<le> bb_bufferIndex b"
    by (simp add: attributeBinding_def)
  then have "bb_bufferIndex b - slot = Suc (bb_bufferIndex b - Suc slot)" by arith
  with assms show ?thesis by (simp add: attributeBinding_def)
qed

lemma attributeBinding_first:
  assumes "accessorBinding X (attr_data a) slot (Some vb) None False = Inr b"
  shows "attributeBinding X vb (a # rest) slot b"
  using accessorBinding_Inr [OF assms] by (simp add: attributeBinding_def)

lemma bindAttributes_bindings:
  assumes "bindAttributes X uvmap vb attrs slot s = Inr s'"
  shows "\<exists>new. mBufferBindings (mResult s') = mBufferBindings (mResult s) @ new
           \<and> list_all (attributeBinding X vb attrs slot) new"
  using assms
proof (induction attrs arbitrary: slot s)
  case Nil
  then show ?case by simp
next
  case (Cons a rest)
  show ?case
  proof (cases "attr_type a = cgltf_attribute_type_normal \<or> attr_type a = cgltf_attribute_type_tangent
                \<or> (attr_type a = cgltf_attribute_type_texcoord \<and> uvmap (attr_index a) = UNUSED)")
    case True
    with Cons.prems have "bindAttributes X uvmap vb rest (Suc slot) s = Inr s'"
      by (auto split: if_splits)
    from Cons.IH [OF this] obtain new where
      n: "mBufferBindings (mResult s') = mBufferBindings (mResult s) @ new"
      and p: "list_all (attributeBinding X vb rest (Suc slot)) new"
      by blast
    from p have "list_all (attributeBinding X vb (a # rest) slot) new"
      by (simp add: list_all_iff attributeBinding_Cons)
    with n show ?thesis by blast
  next
    case False
    with Cons.prems obtain b0 where
      ab: "accessorBinding X (attr_data a) slot (Some vb) None False = Inr b0"
      and r: "bindAttributes X uvmap vb rest (Suc slot) (addBufferBinding b0 s) = Inr s'"
      by (auto split: if_splits sum.splits)
    from Cons.IH [OF r] obtain new where
      n: "mBufferBindings (mResult s') = mBufferBindings (mResult s) @ b0 # new"
      and p: "list_all (attributeBinding X vb rest (Suc slot)) new"
      by auto
    from p have "list_all (attributeBinding X vb (a # rest) slot) new"
      by (simp add: list_all_iff attributeBinding_Cons)
    with attributeBinding_first [OF ab] have "list_all (attributeBinding X vb (a # rest) slot) (b0 # new)"
      by simp
    with n show ?thesis by blast
  qed
qed

lemma createIndices_bindings:
  assumes "createIndices X inPrim s = Inr (r, s1)"
  shows "\<exists>new. mBufferBindings (mResult s1) = mBufferBindings (mResult s) @ new
           \<and> indexBindings X inPrim r new"
proof (cases "indices inPrim")
  case None
  with assms obtain a0 rest where a: "attributes inPrim = a0 # rest"
    by (auto simp: createIndices_def split: list.splits)
  from assms None a show ?thesis
    by (auto simp: createIndices_def indexBindings_def syntheticBinding_def
          IndexBuffer_build_def Let_def)
next
  case (Some a)
  show ?thesis
  proof (cases "getIndexType X (component_type a)")
    case None
    with assms Some show ?thesis
      by (auto simp: createIndices_def indexBindings_def)
  next
    case (Some t)
    with assms \<open>indices inPrim = Some a\<close> obtain b where
      ab: "accessorBinding X a 0 None (Some (length (indexBuffers (engine s))))
             (component_type a = cgltf_component_type_r_8u) = Inr b"
      and r: "r = Some (length (indexBuffers (engine s)))"
      and s1: "s1 = addBufferBinding b (onEngine (\<lambda>e. e\<lparr>indexBuffers := indexBuffers e @
                 [\<lparr>ib_indexCount = ucast (acc_count a), ib_bufferType = t\<rparr>]\<rparr>) s)"
      by (auto simp: createIndices_def IndexBuffer_build_def Let_def split: sum.splits)
    from accessorBinding_Inr [OF ab] Some \<open>indices inPrim = Some a\<close> r s1 show ?thesis
      by (simp add: indexBindings_def)
  qed
qed

lemma createPrimitive_bindings:
  assumes "createPrimitive X addr inPrim outPrim uvmap s = Inr (ok, outPrim1, s1)"
  shows "\<exists>r ixs vb vs. mBufferBindings (mResult s1) = mBufferBindings (mResult s) @ ixs @ vs
           \<and> indexBindings X inPrim r ixs
           \<and> list_all (attributeBinding X vb (attributes inPrim) 0) vs"
proof -
  from assms obtain r s2 where ci: "createIndices X inPrim s = Inr (r, s2)"
    by (auto simp: createPrimitive_def split: sum.splits)
  from createIndices_bindings [OF ci] obtain ixs where
    ixs: "mBufferBindings (mResult s2) = mBufferBindings (mResult s) @ ixs"
    and ib: "indexBindings X inPrim r ixs"
    by blast
  show ?thesis
  proof (cases "ok")
    case False
    with assms ci have "mBufferBindings (mResult s1) = mBufferBindings (mResult s2)"
      by (auto simp: createPrimitive_def VertexBuffer_build_def Let_def
            split: option.splits prod.splits bool.splits sum.splits if_splits)
    with ixs ib have "mBufferBindings (mResult s1) = mBufferBindings (mResult s) @ ixs @ []
        \<and> indexBindings X inPrim r ixs
        \<and> list_all (attributeBinding X 0 (attributes inPrim) 0) []"
      by simp
    then show ?thesis by blast
  next
    case True
    with assms ci obtain vbb box vb s3 where
      ba: "bindAttributes X uvmap vb (attributes inPrim) 0 s3 = Inr s1"
      and s3: "mBufferBindings (mResult s3) = mBufferBindings (mResult s2)"
      by (auto simp: createPrimitive_def VertexBuffer_build_def Let_def onResult_def onEngine_def
            split: option.splits prod.splits bool.splits sum.splits if_splits)
    from bindAttributes_bindings [OF ba] s3 ixs obtain vs where
      "mBufferBindings (mResult s1) = mBufferBindings (mResult s) @ ixs @ vs"
      and "list_all (attributeBinding X vb (attributes inPrim) 0) vs"
      by auto
    with ib show ?thesis by blast
  qed
qed

text \<open>Unfolding the sample inputs and the steps of \<^verbatim>\<open>createPrimitive\<close>.\<close>

lemmas sample_defs =
  sampleExternals_def indexedPrimitive_def
  plainPrimitive_def positionAttribute_def positionAccessor_def byteIndexAccessor_def
  sampleBuffer_def new_Primitive_def sampleState_def with_result_def new_FAssetLoader_def
  emptyEngine_def new_FFilamentAsset_def

lemmas createPrimitive_defs =
  createPrimitive_def createIndices_def IndexBuffer_build_def VertexBuffer_build_def
  accessorBinding_def computeBindingOffset_def computeBindingSize_def addBufferBinding_def
  onResult_def onEngine_def Let_def

text \<open>
  Claim C7. Whenever \<^verbatim>\<open>createPrimitive\<close> returns, every buffer binding it has appended
  that has source bytes (index or vertex attribute) comes from an accessor of the primitive:
  its size is \<open>stride * (count - 1) + elementSize\<close> of that accessor, where \<open>elementSize\<close>
  is the byte size of one element, and its offset is the accessor's byte offset plus its
  buffer view's byte offset. Both are computed in \<^verbatim>\<open>size_t\<close> and converted to \<^verbatim>\<open>uint32_t\<close>, and
  are those natural numbers when they fit 32 bits. The index binding comes from the index
  accessor, the vertex binding of a slot from the accessor of the attribute in that slot.
\<close>

theorem binding_size_and_offset:
  assumes "createPrimitive X addr inPrim outPrim uvmap s = Inr (ok, outPrim1, s1)"
  shows "\<exists>new. mBufferBindings (mResult s1) = mBufferBindings (mResult s) @ new
           \<and> (\<forall>b\<in>set new. \<not> generateTrivialIndices b \<longrightarrow> fromAccessor X inPrim b)"
proof -
  from createPrimitive_bindings [OF assms] obtain r ixs vb vs where
    n: "mBufferBindings (mResult s1) = mBufferBindings (mResult s) @ ixs @ vs"
    and ix: "indexBindings X inPrim r ixs"
    and vs: "list_all (attributeBinding X vb (attributes inPrim) 0) vs"
    by blast
  have "\<not> generateTrivialIndices b \<longrightarrow> fromAccessor X inPrim b" if "b \<in> set (ixs @ vs)" for b
  proof -
    from that consider "b \<in> set ixs" | "b \<in> set vs" by auto
    then show ?thesis
    proof cases
      case 1
      with ix show ?thesis
        by (auto simp: indexBindings_def fromAccessor_def syntheticBinding_def
              split: option.splits if_splits)
    next
      case 2
      with vs have "attributeBinding X vb (attributes inPrim) 0 b"
        by (simp add: list_all_iff)
      then show ?thesis
        by (simp add: attributeBinding_def fromAccessor_def)
    qed
  qed
  with n show ?thesis by blast
qed

theorem binding_size_and_offset_witness:
  "\<exists>r. createPrimitive sampleExternals (0, 0) indexedPrimitive
              (new_Primitive sampleExternals) (\<lambda>i. UV0) sampleState = Inr r
     \<and> map bb_size (mBufferBindings (mResult (snd (snd r)))) = [3, 36]
     \<and> map bb_offset (mBufferBindings (mResult (snd (snd r)))) = [0, 72]
     \<and> list_all (fromAccessor sampleExternals indexedPrimitive)
          (mBufferBindings (mResult (snd (snd r))))"
proof -
  obtain r where r: "createPrimitive sampleExternals (0, 0) indexedPrimitive
              (new_Primitive sampleExternals) (\<lambda>i. UV0) sampleState = Inr r"
    and sz: "map bb_size (mBufferBindings (mResult (snd (snd r)))) = [3, 36]"
    and off: "map bb_offset (mBufferBindings (mResult (snd (snd r)))) = [0, 72]"
    and gen: "list_all (\<lambda>b. \<not> generateTrivialIndices b) (mBufferBindings (mResult (snd (snd r))))"
    by (simp add: sample_defs createPrimitive_defs)
  have old: "mBufferBindings (mResult sampleState) = []"
    by (simp add: sample_defs)
  from r have e: "createPrimitive sampleExternals (0, 0) indexedPrimitive
              (new_Primitive sampleExternals) (\<lambda>i. UV0) sampleState
                = Inr (fst r, fst (snd r), snd (snd r))"
    by simp
  from binding_size_and_offset [OF e] obtain new where
    nf: "mBufferBindings (mResult (snd (snd r))) = mBufferBindings (mResult sampleState) @ new
      \<and> (\<forall>b\<in>set new. \<not> generateTrivialIndices b \<longrightarrow> fromAccessor sampleExternals indexedPrimitive b)"
    ..
  note n = nf [THEN conjunct1] and f = nf [THEN conjunct2]
  from n old have new: "new = mBufferBindings (mResult (snd (snd r)))" by simp
  from f gen have "list_all (fromAccessor sampleExternals indexedPrimitive)
          (mBufferBindings (mResult (snd (snd r))))"
    unfolding new list_all_iff by simp
  with r sz off show ?thesis
    by (intro exI [of _ r] conjI)
qed

text \<open>Unfolding the sample documents and the steps of the loader.\<close>

lemmas document_defs =
  emptyDocument_def singleMeshDocument_def defaultNode_def defaultMaterial_def
  defaultTextureView_def pointReflection_def mat4f_identity_def

lemmas createMaterialInstance_defs =
  createMaterialInstance_def createInstance_def setParameter_def textureSlot_def
  addTextureBinding_def materialKey_def MaterialKey_zero_def ebind_def

lemmas createAsset_defs =
  createAsset_def selectScene_def traverseScene_def finishAsset_def with_result_def
  loader_of_def new_FFilamentAsset_def EntityManager_create_def TransformManager_create_def
  createRenderable_def importSkinningData_def

section \<open>The material instance cache\<close>

lemma null_material_with_vertex_colors_is_created_again:
  assumes "mMatInstanceCache s 1 = None"
  shows "\<exists>uv1 s1. createMaterialInstance X d 0 uv True s
                     = Inr (length (instances (engine s)), uv1, s1)
           \<and> mMatInstanceCache s1 1 = None
           \<and> length (instances (engine s1)) = Suc (length (instances (engine s)))"
  using assms
  by (simp add: createMaterialInstance_def createInstance_def onEngine_def onResult_def
        Let_def split: prod.splits)

text \<open>
  Claim C2, on the code: two calls of \<^verbatim>\<open>createMaterialInstance\<close> with a null material and the
  vertex-colour flag set create two different instances, and both end up in the asset's
  list of material instances. The lookup uses the key \<open>0 XOR 1 = 1\<close>, the store the key 0.
\<close>

theorem null_material_instance_not_shared:
  "\<exists>mi1 uv1 s1 mi2 uv2 s2.
     createMaterialInstance sampleExternals emptyDocument 0 (\<lambda>i. UNUSED) True sampleState
       = Inr (mi1, uv1, s1)
     \<and> createMaterialInstance sampleExternals emptyDocument 0 (\<lambda>i. UNUSED) True s1
       = Inr (mi2, uv2, s2)
     \<and> mi1 \<noteq> mi2 \<and> mMaterialInstances (mResult s2) = [mi1, mi2]"
  by (simp add: sample_defs createMaterialInstance_defs onEngine_def onResult_def)

section \<open>UV transforms\<close>

lemma textureSlot_ignores_transform:
  "textureSlot X matkey present mi mapName matrixName (view\<lparr>transform := t\<rparr>) srgb s
     = textureSlot X matkey present mi mapName matrixName view srgb s"
  by (simp add: textureSlot_def)

text \<open>
  Claim C9, on the code: for a material whose base colour texture has the transform
  offset \<open>(1/2, 1/4)\<close>, scale \<open>(2, 2)\<close>, \<^verbatim>\<open>createMaterialInstance\<close> sets the parameter
  \<^verbatim>\<open>baseColorUvMatrix\<close> once, to the default-constructed matrix (the identity), not to
  the matrix of the transform.
\<close>

theorem uv_matrix_is_default:
  "\<exists>mi uv s.
     createMaterialInstance sampleExternals transformedDocument 8 (\<lambda>i. UNUSED) False sampleState
       = Inr (mi, uv, s)
     \<and> filter (\<lambda>p. fst (snd p) = ''baseColorUvMatrix'') (parameters (engine s))
         = [(mi, ''baseColorUvMatrix'', PMat3 (Mat3f (Float3 1 0 0) (Float3 0 1 0) (Float3 0 0 1)))]"
  by (simp add: sample_defs document_defs transformedDocument_def transformedMaterial_def
        sampleTexture_def createMaterialInstance_defs onEngine_def onResult_def)

section \<open>Unsupported primitives and the error flag\<close>

text \<open>
  Claim C3, on the code: for a mesh whose only primitive has a primitive type that
  \<^verbatim>\<open>getPrimitiveType\<close> rejects, the traversal ends with the error flag clear and the
  renderable of the node has a geometry for that primitive, with a primitive type that was
  never assigned.
\<close>

theorem unsupported_primitive_type_not_skipped:
  "\<exists>s. traverseScene 3 sampleExternals
          (singleMeshDocument [lineLoopPrimitive] mat4f_identity) \<lparr>scene_nodes = [0]\<rparr>
          (with_result (new_FAssetLoader emptyEngine) (new_FFilamentAsset sampleExternals))
        = Some (Inr s)
     \<and> \<not> mError s
     \<and> map r_entries (renderables (engine s))
         = [[\<lparr>entry_material = Some 0, entry_geometry = Some (None, Some 0, Some 0)\<rparr>]]"
  by (simp add: sample_defs document_defs lineLoopPrimitive_def createAsset_defs
        createPrimitive_defs createMaterialInstance_defs numeral_3_eq_3)

lemma finishAsset_after_error:
  "mError s \<Longrightarrow> finishAsset d s = Inl NullPointerDereference"
  by (simp add: finishAsset_def)

text \<open>
  Claim C4, on the code: for a mesh whose only primitive has an accessor type that
  \<^verbatim>\<open>getElementType\<close> rejects, the traversal ends with the error flag set, and \<^verbatim>\<open>createAsset\<close>
  then deletes the asset and dereferences the null pointer \<^verbatim>\<open>mResult\<close>.
\<close>

theorem error_flag_then_null_dereference:
  "(\<exists>s. traverseScene 3 sampleExternals
           (singleMeshDocument [shortPositionPrimitive] mat4f_identity) \<lparr>scene_nodes = [0]\<rparr>
           (with_result (new_FAssetLoader emptyEngine) (new_FFilamentAsset sampleExternals))
         = Some (Inr s)
      \<and> mError s)
   \<and> createAsset 3 sampleExternals (singleMeshDocument [shortPositionPrimitive] mat4f_identity)
        (new_FAssetLoader emptyEngine)
      = Some (Inl NullPointerDereference)"
  by (simp add: sample_defs document_defs shortPositionPrimitive_def createAsset_defs
        createPrimitive_defs createMaterialInstance_defs numeral_3_eq_3)

section \<open>The bounding box of the asset\<close>

lemma transform_by_identity:
  "xyz (mul_mat4_vec4 mat4f_identity (float4_of p 1)) = p"
  by (cases p) (simp add: mat4f_identity_def)

text \<open>
  Claim C5, on the code: for one node whose world transform is the point reflection and
  whose mesh has one primitive with the object-space box from \<open>(0, 0, 0)\<close> to \<open>(1, 1, 1)\<close>,
  the bounding box of the asset gets the minimum \<open>(0, 0, 0)\<close> and the maximum
  \<open>(-1, -1, -1)\<close>; the transformed box reaches from \<open>(-1, -1, -1)\<close> to \<open>(0, 0, 0)\<close>.
\<close>

theorem bounding_box_of_reflected_mesh:
  "(\<exists>a L. createAsset 3 sampleExternals (singleMeshDocument [plainPrimitive] pointReflection)
             (new_FAssetLoader emptyEngine) = Some (Inr (Some a, L))
      \<and> mBoundingBox a = \<lparr>aabb_min = Float3 0 0 0, aabb_max = Float3 (- 1) (- 1) (- 1)\<rparr>)
   \<and> spec_transformAabb pointReflection \<lparr>aabb_min = Float3 0 0 0, aabb_max = Float3 1 1 1\<rparr>
      = \<lparr>aabb_min = Float3 (- 1) (- 1) (- 1), aabb_max = Float3 0 0 0\<rparr>"
  by (simp add: sample_defs document_defs createAsset_defs
        createPrimitive_defs createMaterialInstance_defs FLT_MAX_def numeral_3_eq_3
        spec_transformAabb_def corners_def)

section \<open>The scene that is traversed\<close>

text \<open>The traversal does not read the default scene of the document.\<close>

lemma createMaterialInstance_scene [simp]:
  "createMaterialInstance X (d\<lparr>scene := x\<rparr>) m uv vc s = createMaterialInstance X d m uv vc s"
  unfolding createMaterialInstance_def by (simp cong: if_cong option.case_cong)

lemma renderablePrimitives_scene [simp]:
  "renderablePrimitives X (d\<lparr>scene := x\<rparr>) entity m ps i b box s
     = renderablePrimitives X d entity m ps i b box s"
  by (induction ps arbitrary: i b box s)
     (simp_all add: Let_def split: sum.splits prod.splits option.splits)

lemma createRenderable_scene [simp]:
  "createRenderable X (d\<lparr>scene := x\<rparr>) node entity s = createRenderable X d node entity s"
  unfolding createRenderable_def
  by (simp add: Let_def cong: option.case_cong sum.case_cong prod.case_cong)

lemma createEntity_scene:
  "createEntity n X (d\<lparr>scene := x\<rparr>) node parent s = createEntity n X d node parent s"
  "createEntities n X (d\<lparr>scene := x\<rparr>) nodes parent s = createEntities n X d nodes parent s"
proof (induction n X d node parent s and n X d nodes parent s
        rule: createEntity_createEntities.induct)
  case (1 X d node parent s)
  show ?case by simp
next
  case (2 n X d node parent s)
  show ?case
    using "2.IH" by (simp add: Let_def split: prod.splits sum.splits)
next
  case (3 n X d parent s)
  show ?case by simp
next
  case (4 n X d node rest parent s)
  show ?case
    using "4.IH" by (simp split: option.splits sum.splits)
qed

lemma finishAsset_scene [simp]:
  "finishAsset (d\<lparr>scene := x\<rparr>) s = finishAsset d s"
proof -
  have a: "importSkins (d\<lparr>scene := x\<rparr>) is a = importSkins d is a" for "is" a
    by (induction "is" arbitrary: a) (simp_all cong: sum.case_cong)
  have b: "skinTargets (d\<lparr>scene := x\<rparr>) is a = skinTargets d is a" for "is" a
    by (induction "is" arbitrary: a) (simp_all add: Let_def cong: option.case_cong if_cong)
  show ?thesis
    by (simp add: finishAsset_def a b cong: sum.case_cong option.case_cong if_cong)
qed

section \<open>Induction over the traversal\<close>

lemma renderablePrimitives_Cons:
  "renderablePrimitives X d entity m (p # rest) i b box s =
     (case primitiveStep X d entity m p i b box s of
        Inl e \<Rightarrow> Inl e
      | Inr (b1, box1, s1) \<Rightarrow> renderablePrimitives X d entity m rest (Suc i) b1 box1 s1)"
  by (simp add: primitiveStep_def Let_def split: sum.splits option.splits prod.splits)

lemma createEntity_Suc:
  "createEntity (Suc n) X d node parent s =
     (case visitNode X d node parent s of
        Inl e \<Rightarrow> Some (Inl e)
      | Inr (entity, s1) \<Rightarrow> createEntities n X d (children (node_at d node)) entity s1)"
  by (simp add: visitNode_def Let_def split: sum.splits prod.splits)

lemma renderablePrimitives_invariant:
  assumes step: "\<And>p i b box s b1 box1 s1.
      I i b s \<Longrightarrow> primitiveStep X d entity m p i b box s = Inr (b1, box1, s1) \<Longrightarrow> I (Suc i) b1 s1"
    and "I i b s"
    and "renderablePrimitives X d entity m ps i b box s = Inr (b1, box1, s1)"
  shows "I (i + length ps) b1 s1"
  using assms(2,3)
proof (induction ps arbitrary: i b box s)
  case Nil
  then show ?case by simp
next
  case (Cons p rest)
  from Cons.prems(2) obtain b2 box2 s2 where
    st: "primitiveStep X d entity m p i b box s = Inr (b2, box2, s2)"
    and r: "renderablePrimitives X d entity m rest (Suc i) b2 box2 s2 = Inr (b1, box1, s1)"
    by (auto simp: renderablePrimitives_Cons simp del: renderablePrimitives.simps
          split: sum.splits)
  from step [OF Cons.prems(1) st] have "I (Suc i) b2 s2" .
  from Cons.IH [OF this r] show ?case by simp
qed

lemma createEntities_invariant_aux:
  assumes visit: "\<And>node parent s entity s1.
      I s \<Longrightarrow> visitNode X d node parent s = Inr (entity, s1) \<Longrightarrow> I s1"
    and ent: "\<And>node parent s s1.
      I s \<Longrightarrow> createEntity n X d node parent s = Some (Inr s1) \<Longrightarrow> I s1"
    and "I s"
    and "createEntities n X d nodes parent s = Some (Inr s1)"
  shows "I s1"
  using assms(3,4)
proof (induction nodes arbitrary: s)
  case Nil
  then show ?case by simp
next
  case (Cons node rest)
  from Cons.prems(2) obtain s2 where
    a: "createEntity n X d node parent s = Some (Inr s2)"
    and b: "createEntities n X d rest parent s2 = Some (Inr s1)"
    by (auto split: option.splits sum.splits)
  from ent [OF Cons.prems(1) a] have "I s2" .
  from Cons.IH [OF this b] show ?case .
qed

lemma createEntity_invariant:
  assumes visit: "\<And>node parent s entity s1.
      I s \<Longrightarrow> visitNode X d node parent s = Inr (entity, s1) \<Longrightarrow> I s1"
    and "I s"
    and "createEntity n X d node parent s = Some (Inr s1)"
  shows "I s1"
  using assms(2,3)
proof (induction n arbitrary: node parent s s1)
  case 0
  then show ?case by simp
next
  case (Suc n)
  from Suc.prems(2) obtain entity s2 where
    v: "visitNode X d node parent s = Inr (entity, s2)"
    and c: "createEntities n X d (children (node_at d node)) entity s2 = Some (Inr s1)"
    by (auto simp: createEntity_Suc simp del: createEntity.simps split: sum.splits)
  have i2: "I s2" by (rule visit [OF Suc.prems(1) v])
  show ?case
    by (rule createEntities_invariant_aux [of I X d n, OF visit Suc.IH i2 c])
qed

lemma createEntities_invariant:
  assumes visit: "\<And>node parent s entity s1.
      I s \<Longrightarrow> visitNode X d node parent s = Inr (entity, s1) \<Longrightarrow> I s1"
    and "I s"
    and "createEntities n X d nodes parent s = Some (Inr s1)"
  shows "I s1"
  by (rule createEntities_invariant_aux [of I X d n, OF visit createEntity_invariant [of I X d, OF visit] assms(2,3)])

section \<open>What the steps leave unchanged\<close>

lemma textureSlot_frame:
  assumes "textureSlot X matkey present mi mapName matrixName view srgb s = Inr s1"
  shows "geometryOf s1 = geometryOf s \<and> nodesOf s1 = nodesOf s \<and> mError s1 = mError s
         \<and> mMatInstanceCache s1 = mMatInstanceCache s
         \<and> mBufferBindings (mResult s1) = mBufferBindings (mResult s)"
  using assms
  by (auto simp: textureSlot_def addTextureBinding_def setParameter_def onResult_def onEngine_def
        geometryOf_def nodesOf_def Let_def split: if_splits option.splits)

lemma createMaterialInstance_frame:
  assumes "createMaterialInstance X d m uv vc s = Inr (mi, uv1, s1)"
  shows "geometryOf s1 = geometryOf s \<and> nodesOf s1 = nodesOf s \<and> mError s1 = mError s
         \<and> mBufferBindings (mResult s1) = mBufferBindings (mResult s)"
proof (cases "mMatInstanceCache s (m XOR (if vc then 1 else 0))")
  case (Some a)
  with assms show ?thesis by (simp add: createMaterialInstance_def Let_def)
next
  case None
  show ?thesis
  proof (cases "m = 0")
    case True
    with assms None show ?thesis
      by (auto simp: createMaterialInstance_def createInstance_def onResult_def onEngine_def
            geometryOf_def nodesOf_def Let_def split: prod.splits)
  next
    case False
    define s8 where "s8 =
      setParameter (length (instances (engine s))) ''roughnessFactor''
        (PFloat (roughness_factor (pbr_metallic_roughness (material_at d m))))
       (setParameter (length (instances (engine s))) ''metallicFactor''
        (PFloat (metallic_factor (pbr_metallic_roughness (material_at d m))))
       (setParameter (length (instances (engine s))) ''baseColorFactor''
        (PFloat4 (base_color_factor (pbr_metallic_roughness (material_at d m))))
       (setParameter (length (instances (engine s))) ''aoStrength''
        (PFloat (tv_scale (occlusion_texture (material_at d m))))
       (setParameter (length (instances (engine s))) ''normalScale''
        (PFloat (tv_scale (normal_texture (material_at d m))))
       (setParameter (length (instances (engine s))) ''emissiveFactor''
        (PFloat3 (emissive_factor (material_at d m)))
       (onResult (\<lambda>a. a\<lparr>mMaterialInstances := mMaterialInstances a @ [length (instances (engine s))]\<rparr>)
         (onEngine (\<lambda>e. e\<lparr>instances := instances e @
            [fst (getOrCreateMaterial X (materialKey (material_at d m) vc))]\<rparr>) s)))))))"
    have f8: "geometryOf s8 = geometryOf s \<and> nodesOf s8 = nodesOf s \<and> mError s8 = mError s
         \<and> mBufferBindings (mResult s8) = mBufferBindings (mResult s)"
      by (simp add: s8_def setParameter_def onResult_def onEngine_def geometryOf_def nodesOf_def)
    from assms None False obtain s9 s10 s11 s12 s13 k where
      t1: "textureSlot X k (hasBaseColorTexture k) (length (instances (engine s)))
             ''baseColorMap'' ''baseColorUvMatrix''
             (base_color_texture (pbr_metallic_roughness (material_at d m))) True s8 = Inr s9"
      and t2: "textureSlot X k (hasMetallicRoughnessTexture k) (length (instances (engine s)))
             ''metallicRoughnessMap'' ''metallicRoughnessUvMatrix''
             (metallic_roughness_texture (pbr_metallic_roughness (material_at d m))) False s9 = Inr s10"
      and t3: "textureSlot X k (hasNormalTexture k) (length (instances (engine s)))
             ''normalMap'' ''normalUvMatrix'' (normal_texture (material_at d m)) False s10 = Inr s11"
      and t4: "textureSlot X k (hasOcclusionTexture k) (length (instances (engine s)))
             ''occlusionMap'' ''occlusionUvMatrix'' (occlusion_texture (material_at d m)) False s11 = Inr s12"
      and t5: "textureSlot X k (hasEmissiveTexture k) (length (instances (engine s)))
             ''emissiveMap'' ''emissiveUvMatrix'' (emissive_texture (material_at d m)) True s12 = Inr s13"
      and s1: "s1 = s13\<lparr>mMatInstanceCache := (mMatInstanceCache s13)(m XOR (if vc then 1 else 0) \<mapsto> mi)\<rparr>"
      by (auto simp: createMaterialInstance_def createInstance_def Let_def ebind_def s8_def
            split: prod.splits sum.splits)
    from textureSlot_frame [OF t1] textureSlot_frame [OF t2] textureSlot_frame [OF t3]
      textureSlot_frame [OF t4] textureSlot_frame [OF t5] f8
    have "geometryOf s13 = geometryOf s \<and> nodesOf s13 = nodesOf s \<and> mError s13 = mError s
         \<and> mBufferBindings (mResult s13) = mBufferBindings (mResult s)"
      by simp
    then show ?thesis
      by (simp add: s1 geometryOf_def nodesOf_def)
  qed
qed

lemma createIndices_frame:
  assumes "createIndices X p s = Inr (r, s1)"
  shows "nodesOf s1 = nodesOf s \<and> mMeshCache s1 = mMeshCache s \<and> mError s1 = mError s
         \<and> vertexBuffers (engine s1) = vertexBuffers (engine s)
         \<and> (case r of
               None \<Rightarrow> indexBuffers (engine s1) = indexBuffers (engine s)
             | Some ib \<Rightarrow> ib = length (indexBuffers (engine s))
                 \<and> length (indexBuffers (engine s1)) = Suc (length (indexBuffers (engine s))))"
  using assms
  by (auto simp: createIndices_def IndexBuffer_build_def addBufferBinding_def onResult_def
        onEngine_def nodesOf_def Let_def split: option.splits list.splits sum.splits)

lemma bindAttributes_frame:
  assumes "bindAttributes X uvmap vb attrs slot s = Inr s1"
  shows "nodesOf s1 = nodesOf s \<and> geometryOf s1 = geometryOf s \<and> mError s1 = mError s"
  using assms
proof (induction attrs arbitrary: slot s)
  case Nil
  then show ?case by simp
next
  case (Cons a rest)
  have f: "nodesOf (addBufferBinding b s) = nodesOf s
           \<and> geometryOf (addBufferBinding b s) = geometryOf s
           \<and> mError (addBufferBinding b s) = mError s" for b
    by (simp add: addBufferBinding_def onResult_def nodesOf_def geometryOf_def)
  from Cons.prems consider
      "bindAttributes X uvmap vb rest (Suc slot) s = Inr s1"
    | b where "bindAttributes X uvmap vb rest (Suc slot) (addBufferBinding b s) = Inr s1"
    by (auto split: if_splits sum.splits)
  then show ?case
  proof cases
    case 1
    from Cons.IH [OF this] show ?thesis .
  next
    case 2
    from Cons.IH [OF this] f show ?thesis by simp
  qed
qed

lemma createPrimitive_result:
  assumes "createPrimitive X addr p outPrim uv s = Inr (ok, outPrim1, s1)"
  shows "nodesOf s1 = nodesOf s \<and> mMeshCache s1 = mMeshCache s \<and> mError s1 = mError s
         \<and> (if ok then
               vertices outPrim1 = Some (length (vertexBuffers (engine s)))
               \<and> length (vertexBuffers (engine s1)) = Suc (length (vertexBuffers (engine s)))
               \<and> prim_indices outPrim1 = Some (length (indexBuffers (engine s)))
               \<and> length (indexBuffers (engine s1)) = Suc (length (indexBuffers (engine s)))
             else
               vertices outPrim1 = vertices outPrim
               \<and> prim_indices outPrim1 = prim_indices outPrim
               \<and> vertexBuffers (engine s1) = vertexBuffers (engine s)
               \<and> length (indexBuffers (engine s)) \<le> length (indexBuffers (engine s1))
               \<and> length (indexBuffers (engine s1)) \<le> Suc (length (indexBuffers (engine s))))"
proof -
  from assms obtain r s2 where ci: "createIndices X p s = Inr (r, s2)"
    by (auto simp: createPrimitive_def split: sum.splits)
  note f2 = createIndices_frame [OF ci]
  show ?thesis
  proof (cases r)
    case None
    with assms ci have "ok = False" "outPrim1 = outPrim" "s1 = s2"
      by (auto simp: createPrimitive_def)
    with f2 None show ?thesis by simp
  next
    case (Some ib)
    obtain okd vbb box where da: "declareAttributes X uv (attributes p) 0
        \<lparr>vb_bufferCount = length (attributes p), vb_vertexCount = None,
         vb_attributes = [], vb_normalized = []\<rparr> (aabb outPrim) = (okd, vbb, box)"
      by (metis prod_cases3)
    show ?thesis
    proof (cases okd)
      case False
      with assms ci Some da have "ok = False" "outPrim1 = outPrim\<lparr>aabb := box\<rparr>" "s1 = s2"
        by (auto simp: createPrimitive_def)
      with f2 Some show ?thesis by simp
    next
      case True
      define s3 where "s3 = onResult (\<lambda>a. a\<lparr>mPrimMap := (mPrimMap a)(addr \<mapsto>
          length (vertexBuffers (engine s2)))\<rparr>)
          (onEngine (\<lambda>e. e\<lparr>vertexBuffers := vertexBuffers e @ [vbb]\<rparr>) s2)"
      from assms ci Some da True have
        ba: "bindAttributes X uv (length (vertexBuffers (engine s2))) (attributes p) 0 s3 = Inr s1"
        and r: "ok = True"
          "outPrim1 = outPrim\<lparr>aabb := box, prim_indices := Some ib,
                               vertices := Some (length (vertexBuffers (engine s2)))\<rparr>"
        by (auto simp: createPrimitive_def VertexBuffer_build_def Let_def s3_def
              split: sum.splits)
      have f3: "nodesOf s3 = nodesOf s2 \<and> mMeshCache s3 = mMeshCache s2 \<and> mError s3 = mError s2
         \<and> vertexBuffers (engine s3) = vertexBuffers (engine s2) @ [vbb]
         \<and> indexBuffers (engine s3) = indexBuffers (engine s2)"
        by (simp add: s3_def onResult_def onEngine_def nodesOf_def)
      from bindAttributes_frame [OF ba] f3 f2 Some r show ?thesis
        by (simp add: geometryOf_def)
    qed
  qed
qed

section \<open>Skins\<close>

lemma primitiveStep_nodes:
  assumes "primitiveStep X d entity m p i b box s = Inr (b1, box1, s1)"
  shows "nodesOf s1 = nodesOf s"
proof -
  from assms obtain mi uv s2 where
    cm: "createMaterialInstance X d (material p) (uninitialized_uvmap X entity i)
           (primitiveHasVertexColor (attributes p)) s = Inr (mi, uv, s2)"
    by (auto simp: primitiveStep_def split: sum.splits)
  from assms cm obtain outs where outs: "mMeshCache s2 m = Some outs" "i < length outs"
    by (auto simp: primitiveStep_def split: option.splits if_splits)
  from assms cm outs obtain ok o1 s3 where
    cp: "(if vertices (outs ! i) = None
          then createPrimitive X (m, i) p (outs ! i) uv s2
          else Inr (True, outs ! i, s2)) = Inr (ok, o1, s3)"
    and s1: "s1 = s3\<lparr>mMeshCache := (mMeshCache s3)(m \<mapsto> outs[i := o1])\<rparr>
             \<or> s1 = s3\<lparr>mMeshCache := (mMeshCache s3)(m \<mapsto> outs[i := o1]), mError := True\<rparr>"
    by (auto simp: primitiveStep_def Let_def split: sum.splits if_splits)
  have "nodesOf s3 = nodesOf s2"
  proof (cases "vertices (outs ! i) = None")
    case True
    with cp have "createPrimitive X (m, i) p (outs ! i) uv s2 = Inr (ok, o1, s3)" by simp
    from createPrimitive_result [OF this] show ?thesis by simp
  next
    case False
    with cp show ?thesis by simp
  qed
  moreover from s1 have "nodesOf s1 = nodesOf s3"
    by (auto simp: nodesOf_def)
  ultimately show ?thesis
    using createMaterialInstance_frame [OF cm] by simp
qed

lemma renderablePrimitives_nodes:
  assumes "renderablePrimitives X d entity m ps i b box s = Inr (b1, box1, s1)"
  shows "nodesOf s1 = nodesOf s"
proof -
  have "nodesOf s1 = nodesOf s"
    by (rule renderablePrimitives_invariant
          [where I = "\<lambda>i b t. nodesOf t = nodesOf s", OF _ _ assms])
       (simp_all add: primitiveStep_nodes)
  then show ?thesis .
qed

lemma createRenderable_skins:
  assumes "createRenderable X d node entity s = Inr s1"
  shows "mSkins (mResult s1) = mSkins (mResult s) \<and> mNodeMap (mResult s1) = mNodeMap (mResult s)
         \<and> mEntities (mResult s1) = mEntities (mResult s)
         \<and> entityCount (engine s1) = entityCount (engine s)"
proof -
  from assms obtain m where m: "mesh (node_at d node) = Some m"
    by (auto simp: createRenderable_def split: option.splits)
  define s0 where "s0 = (case mMeshCache s m of
      None \<Rightarrow> s\<lparr>mMeshCache := (mMeshCache s)(m \<mapsto>
          replicate (length (primitives (mesh_at d m)))
            \<lparr>vertices = None, prim_indices = None, aabb = Aabb_default X\<rparr>)\<rparr>
    | Some _ \<Rightarrow> s)"
  have n0: "nodesOf s0 = nodesOf s"
    by (simp add: s0_def nodesOf_def split: option.splits)
  from assms m obtain b box s2 where
    rp: "renderablePrimitives X d entity m (primitives (mesh_at d m)) 0
           (replicate (length (primitives (mesh_at d m)))
              \<lparr>entry_material = None, entry_geometry = None\<rparr>) (Aabb_default X) s0
         = Inr (b, box, s2)"
    and r: "mSkins (mResult s1) = mSkins (mResult s2) \<and> mNodeMap (mResult s1) = mNodeMap (mResult s2)
         \<and> mEntities (mResult s1) = mEntities (mResult s2)
         \<and> entityCount (engine s1) = entityCount (engine s2)"
    by (auto simp: createRenderable_def Let_def s0_def onResult_def onEngine_def
          split: option.splits sum.splits)
  from renderablePrimitives_nodes [OF rp] n0 r show ?thesis
    by (simp add: nodesOf_def)
qed

lemma visitNode_skins:
  assumes "visitNode X d node parent s = Inr (entity, s1)"
  shows "mSkins (mResult s1) = mSkins (mResult s)"
proof -
  define s3 where "s3 = onResult (\<lambda>a. a\<lparr>mEntities := mEntities a @ [Suc (entityCount (engine s))],
        mNodeMap := (mNodeMap a)(node \<mapsto> Suc (entityCount (engine s)))\<rparr>)
      (TransformManager_create (Suc (entityCount (engine s))) parent
        (if has_matrix (node_at d node) then node_matrix (node_at d node)
         else compose X (node_translation (node_at d node)) (node_rotation (node_at d node))
                (node_scale (node_at d node)))
        (onEngine (\<lambda>e. e\<lparr>entityCount := Suc (entityCount e)\<rparr>) s))"
  have k: "mSkins (mResult s3) = mSkins (mResult s)"
    by (simp add: s3_def onResult_def onEngine_def TransformManager_create_def)
  from assms have "s1 = s3 \<or> createRenderable X d node (Suc (entityCount (engine s))) s3 = Inr s1"
    by (auto simp: visitNode_def EntityManager_create_def Let_def s3_def
          split: if_splits sum.splits)
  with k createRenderable_skins show ?thesis by auto
qed

lemma traverseScene_skins:
  assumes "traverseScene n X d sc s = Some (Inr s1)"
  shows "mSkins (mResult s1) = mSkins (mResult s)"
proof -
  define s3 where "s3 = TransformManager_create (Suc (entityCount (engine s))) 0 mat4f_identity
      (onResult (\<lambda>a. a\<lparr>mRoot := Suc (entityCount (engine s))\<rparr>)
        (onEngine (\<lambda>e. e\<lparr>entityCount := Suc (entityCount e)\<rparr>) s))"
  have k: "mSkins (mResult s3) = mSkins (mResult s)"
    by (simp add: s3_def onResult_def onEngine_def TransformManager_create_def)
  from assms have c: "createEntities n X d (scene_nodes sc) (Suc (entityCount (engine s))) s3
      = Some (Inr s1)"
    by (simp add: traverseScene_def EntityManager_create_def Let_def s3_def)
  have "mSkins (mResult s1) = mSkins (mResult s)"
    by (rule createEntities_invariant
          [where I = "\<lambda>t. mSkins (mResult t) = mSkins (mResult s)", OF _ k c])
       (simp add: visitNode_skins)
  then show ?thesis .
qed

lemma resolveJoints_Inr:
  "resolveJoints nodeMap js = Inr es \<longleftrightarrow> map nodeMap js = map Some es"
proof (induction js arbitrary: es)
  case Nil
  show ?case by auto
next
  case (Cons j rest)
  show ?case
  proof (cases "nodeMap j")
    case None
    then show ?thesis by (cases es) auto
  next
    case (Some e)
    show ?thesis
    proof (cases "resolveJoints nodeMap rest")
      case (Inl x)
      with Cons.IH have "\<And>es'. map nodeMap rest \<noteq> map Some es'" by simp
      with Some Inl show ?thesis by (cases es) auto
    next
      case (Inr es')
      with Cons.IH [of es'] have m: "map nodeMap rest = map Some es'" by simp
      have "(es' = t) = (map nodeMap rest = map Some t)" for t
        using Cons.IH [of t] Inr by simp
      with Some Inr show ?thesis by (cases es) auto
    qed
  qed
qed

lemma resolveJoints_Inl:
  "resolveJoints nodeMap js = Inl e \<Longrightarrow> e = OutOfRange"
  by (induction js arbitrary: e) (auto split: option.splits sum.splits)

lemma resolveJoints_unvisited:
  assumes "j \<in> set js" and "nodeMap j = None"
  shows "resolveJoints nodeMap js = Inl OutOfRange"
proof (cases "resolveJoints nodeMap js")
  case (Inl e)
  with resolveJoints_Inl show ?thesis by blast
next
  case (Inr es)
  then have "map nodeMap js = map Some es" by (simp add: resolveJoints_Inr)
  then have "nodeMap ` set js = Some ` set es" by (metis list.set_map)
  with assms have False by force
  then show ?thesis ..
qed

lemma importSkinningData_Inr:
  assumes "importSkinningData a dst src = Inr sk"
  shows "map (mNodeMap a) (joints src) = map Some (skin_joints sk)"
  using assms
  by (auto simp: importSkinningData_def resolveJoints_Inr split: sum.splits option.splits)

lemma importSkinningData_unvisited:
  assumes "j \<in> set (joints src)" and "mNodeMap a j = None"
  shows "importSkinningData a dst src = Inl OutOfRange"
  using resolveJoints_unvisited [of j "joints src" "mNodeMap a"] assms
  by (simp add: importSkinningData_def)

lemma importSkinningData_Inl:
  "importSkinningData a dst src = Inl e \<Longrightarrow> e = OutOfRange"
  by (auto simp: importSkinningData_def split: sum.splits dest: resolveJoints_Inl)

lemma importSkins_Inr:
  assumes "importSkins d ks a = Inr a1"
  shows "mNodeMap a1 = mNodeMap a \<and> length (mSkins a1) = length (mSkins a)
         \<and> (\<forall>k. k \<notin> set ks \<longrightarrow> mSkins a1 ! k = mSkins a ! k)
         \<and> (distinct ks \<longrightarrow>
              (\<forall>k\<in>set ks. map (mNodeMap a) (joints (skin_at d k))
                             = map Some (skin_joints (mSkins a1 ! k))))"
  using assms
proof (induction ks arbitrary: a)
  case Nil
  then show ?case by simp
next
  case (Cons i rest)
  from Cons.prems obtain sk where
    lt: "i < length (mSkins a)"
    and sk: "importSkinningData a (mSkins a ! i) (skin_at d i) = Inr sk"
    and r: "importSkins d rest (a\<lparr>mSkins := (mSkins a)[i := sk]\<rparr>) = Inr a1"
    by (auto split: if_splits sum.splits)
  let ?a = "a\<lparr>mSkins := (mSkins a)[i := sk]\<rparr>"
  from Cons.IH [OF r] have
    nm: "mNodeMap a1 = mNodeMap a"
    and len: "length (mSkins a1) = length (mSkins a)"
    and other: "\<forall>k. k \<notin> set rest \<longrightarrow> mSkins a1 ! k = mSkins ?a ! k"
    and sofar: "distinct rest \<longrightarrow>
              (\<forall>k\<in>set rest. map (mNodeMap a) (joints (skin_at d k))
                             = map Some (skin_joints (mSkins a1 ! k)))"
    by simp_all
  have o2: "\<forall>k. k \<notin> set (i # rest) \<longrightarrow> mSkins a1 ! k = mSkins a ! k"
    using other by simp
  have d2: "\<forall>k\<in>set (i # rest). map (mNodeMap a) (joints (skin_at d k))
                             = map Some (skin_joints (mSkins a1 ! k))"
    if dist: "distinct (i # rest)"
  proof
    fix k assume k: "k \<in> set (i # rest)"
    show "map (mNodeMap a) (joints (skin_at d k)) = map Some (skin_joints (mSkins a1 ! k))"
    proof (cases "k = i")
      case True
      from dist have "i \<notin> set rest" by simp
      with other have "mSkins a1 ! i = mSkins ?a ! i" by simp
      with lt have "mSkins a1 ! i = sk" by simp
      with importSkinningData_Inr [OF sk] True show ?thesis by simp
    next
      case False
      with k have "k \<in> set rest" by simp
      with sofar dist show ?thesis by simp
    qed
  qed
  from nm len o2 d2 show ?case by blast
qed

lemma importSkins_Inl:
  "importSkins d ks a = Inl e \<Longrightarrow> e = OutOfRange \<or> e = OutOfBounds"
  by (induction ks arbitrary: a)
     (auto split: if_splits sum.splits dest: importSkinningData_Inl)

lemma importSkins_unvisited:
  assumes "k \<in> set ks" and "j \<in> set (joints (skin_at d k))" and "mNodeMap a j = None"
    and "\<forall>i\<in>set ks. i < length (mSkins a)"
  shows "importSkins d ks a = Inl OutOfRange"
  using assms
proof (induction ks arbitrary: a)
  case Nil
  then show ?case by simp
next
  case (Cons i rest)
  from Cons.prems(4) have lt: "i < length (mSkins a)" by simp
  show ?case
  proof (cases "importSkinningData a (mSkins a ! i) (skin_at d i)")
    case (Inl e)
    with importSkinningData_Inl lt show ?thesis by auto
  next
    case (Inr sk)
    have "k \<noteq> i"
    proof
      assume "k = i"
      with Cons.prems(2,3) have "importSkinningData a (mSkins a ! i) (skin_at d i) = Inl OutOfRange"
        by (simp add: importSkinningData_unvisited)
      with Inr show False by simp
    qed
    with Cons.prems(1) have "k \<in> set rest" by simp
    moreover have "mNodeMap (a\<lparr>mSkins := (mSkins a)[i := sk]\<rparr>) j = None"
      using Cons.prems(3) by simp
    moreover have "\<forall>i'\<in>set rest. i' < length (mSkins (a\<lparr>mSkins := (mSkins a)[i := sk]\<rparr>))"
      using Cons.prems(4) by simp
    ultimately have "importSkins d rest (a\<lparr>mSkins := (mSkins a)[i := sk]\<rparr>) = Inl OutOfRange"
      using Cons.IH Cons.prems(2) by blast
    with Inr lt show ?thesis by simp
  qed
qed

lemma skinTargets_Inr:
  assumes "skinTargets d ks a = Inr a1"
  shows "length (mSkins a1) = length (mSkins a)
         \<and> (\<forall>k. skin_joints (mSkins a1 ! k) = skin_joints (mSkins a ! k))"
  using assms
proof (induction ks arbitrary: a)
  case Nil
  then show ?case by simp
next
  case (Cons i rest)
  show ?case
  proof (cases "skin (node_at d i)")
    case None
    with Cons show ?thesis by simp
  next
    case (Some skinIndex)
    let ?e = "case mNodeMap a i of Some e \<Rightarrow> e | None \<Rightarrow> 0"
    let ?a = "a\<lparr>mNodeMap := (mNodeMap a)(i \<mapsto> ?e),
               mSkins := (mSkins a)[skinIndex :=
                 (mSkins a ! skinIndex)\<lparr>targets := targets (mSkins a ! skinIndex) @ [?e]\<rparr>]\<rparr>"
    from Cons.prems Some have lt: "skinIndex < length (mSkins a)"
      and r: "skinTargets d rest ?a = Inr a1"
      by (auto simp: Let_def split: if_splits)
    from Cons.IH [OF r] have "length (mSkins a1) = length (mSkins a)"
      and j: "\<forall>k. skin_joints (mSkins a1 ! k) = skin_joints (mSkins ?a ! k)"
      by simp_all
    moreover have "skin_joints (mSkins ?a ! k) = skin_joints (mSkins a ! k)" for k
      using lt by (cases "k = skinIndex") simp_all
    ultimately show ?thesis by simp
  qed
qed

text \<open>
  Claim C8. For a traversal of the selected scene that returns: no skin has been resolved
  when the traversal ends (the skin list of the asset is still empty); \<^verbatim>\<open>createAsset\<close> then
  resolves the joints of every skin through the node map the traversal has built; when some
  joint of some skin is a node that the traversal has not visited (it is not in the node
  map), \<^verbatim>\<open>createAsset\<close> fails: with the exception of \<^verbatim>\<open>robin_map::at\<close>, or, when the error flag is
  set, with the null dereference that precedes the skins; and whenever \<^verbatim>\<open>createAsset\<close>
  returns an asset, the joints of each of its skins are the entities of the node map for the
  joints of the source skin, in order.
\<close>

theorem skin_joints_resolved_after_traversal:
  assumes "selectScene d = Some sc"
    and "traverseScene n X d sc (with_result L (new_FFilamentAsset X)) = Some (Inr s)"
  shows "mSkins (mResult s) = []
         \<and> ((\<exists>k j. k < skins_count d \<and> j \<in> set (joints (skin_at d k))
                    \<and> mNodeMap (mResult s) j = None) \<longrightarrow>
              createAsset n X d L
                = Some (Inl (if mError s then NullPointerDereference else OutOfRange)))
         \<and> (\<forall>a L1. createAsset n X d L = Some (Inr (Some a, L1)) \<longrightarrow>
              length (mSkins a) = skins_count d
              \<and> (\<forall>k. k < skins_count d \<longrightarrow> map (mNodeMap (mResult s)) (joints (skin_at d k))
                                     = map Some (skin_joints (mSkins a ! k))))"
proof -
  from traverseScene_skins [OF assms(2)]
  have p1: "mSkins (mResult s) = []"
    by (simp add: with_result_def new_FFilamentAsset_def)
  let ?a = "(mResult s)\<lparr>mSkins := replicate (skins_count d)
              \<lparr>name = None, skin_joints = [], targets = []\<rparr>\<rparr>"
  have p2: "createAsset n X d L
                = Some (Inl (if mError s then NullPointerDereference else OutOfRange))"
    if "\<exists>k j. k < skins_count d \<and> j \<in> set (joints (skin_at d k))
                    \<and> mNodeMap (mResult s) j = None"
  proof -
    from that obtain k j where k: "k < skins_count d" and j: "j \<in> set (joints (skin_at d k))"
      and u: "mNodeMap (mResult s) j = None"
      by blast
    have "importSkins d [0 ..< skins_count d] ?a = Inl OutOfRange"
      by (rule importSkins_unvisited [of k _ j]) (use k j u in simp_all)
    then have "finishAsset d s = Inl (if mError s then NullPointerDereference else OutOfRange)"
      by (simp add: finishAsset_def)
    with assms show ?thesis
      by (simp add: createAsset_def)
  qed
  have p3: "length (mSkins a) = skins_count d
              \<and> (\<forall>k. k < skins_count d \<longrightarrow> map (mNodeMap (mResult s)) (joints (skin_at d k))
                                     = map Some (skin_joints (mSkins a ! k)))"
    if c: "createAsset n X d L = Some (Inr (Some a, L1))" for a L1
  proof -
    from c assms have f: "finishAsset d s = Inr (Some a, L1)"
      by (simp add: createAsset_def)
    then obtain a2 where
      i: "importSkins d [0 ..< skins_count d] ?a = Inr a2"
      and t: "skinTargets d [0 ..< nodes_count d] a2 = Inr a"
      by (auto simp: finishAsset_def Let_def split: if_splits sum.splits)
    note i2 = importSkins_Inr [OF i]
    note t2 = skinTargets_Inr [OF t]
    from i2 t2 have len: "length (mSkins a) = skins_count d" by simp
    have "map (mNodeMap (mResult s)) (joints (skin_at d k))
                                     = map Some (skin_joints (mSkins a ! k))"
      if "k < skins_count d" for k
    proof -
      from that have "k \<in> set [0 ..< skins_count d]" by simp
      with i2 have "map (mNodeMap ?a) (joints (skin_at d k)) = map Some (skin_joints (mSkins a2 ! k))"
        by (metis distinct_upt)
      with t2 show ?thesis by simp
    qed
    with len show ?thesis by blast
  qed
  have q2: "(\<exists>k j. k < skins_count d \<and> j \<in> set (joints (skin_at d k))
                    \<and> mNodeMap (mResult s) j = None) \<longrightarrow>
              createAsset n X d L
                = Some (Inl (if mError s then NullPointerDereference else OutOfRange))"
    using p2 by (rule impI)
  have q3: "\<forall>a L1. createAsset n X d L = Some (Inr (Some a, L1)) \<longrightarrow>
              length (mSkins a) = skins_count d
              \<and> (\<forall>k. k < skins_count d \<longrightarrow> map (mNodeMap (mResult s)) (joints (skin_at d k))
                                     = map Some (skin_joints (mSkins a ! k)))"
    using p3 by (intro allI impI)
  from p1 q2 q3 show ?thesis
    by (intro conjI)
qed

theorem skin_joints_resolved_after_traversal_witness:
  "createAsset 3 sampleExternals (skinnedDocument [0, 7]) (new_FAssetLoader emptyEngine)
     = Some (Inl OutOfRange)
   \<and> (\<exists>a L1. createAsset 3 sampleExternals (skinnedDocument [0]) (new_FAssetLoader emptyEngine)
                 = Some (Inr (Some a, L1))
         \<and> map skin_joints (mSkins a) = [[2]])"
proof
  let ?d = "skinnedDocument [0, 7]"
  have sel: "selectScene ?d = Some \<lparr>scene_nodes = [0]\<rparr>"
    by (simp add: selectScene_def skinnedDocument_def document_defs)
  obtain s where t: "traverseScene 3 sampleExternals ?d \<lparr>scene_nodes = [0]\<rparr>
        (with_result (new_FAssetLoader emptyEngine) (new_FFilamentAsset sampleExternals))
      = Some (Inr s)"
    and u: "mNodeMap (mResult s) 7 = None" and e: "\<not> mError s"
    by (simp add: sample_defs document_defs skinnedDocument_def createAsset_defs
          createPrimitive_defs createMaterialInstance_defs numeral_3_eq_3)
  have "\<exists>k j. k < skins_count ?d \<and> j \<in> set (joints (skin_at ?d k))
                    \<and> mNodeMap (mResult s) j = None"
    using u by (intro exI [of _ 0] exI [of _ 7]) (simp add: skinnedDocument_def)
  with skin_joints_resolved_after_traversal [OF sel t] e
  show "createAsset 3 sampleExternals ?d (new_FAssetLoader emptyEngine) = Some (Inl OutOfRange)"
    by simp
next
  let ?d = "skinnedDocument [0]"
  have sel: "selectScene ?d = Some \<lparr>scene_nodes = [0]\<rparr>"
    by (simp add: selectScene_def skinnedDocument_def document_defs)
  obtain s where t: "traverseScene 3 sampleExternals ?d \<lparr>scene_nodes = [0]\<rparr>
        (with_result (new_FAssetLoader emptyEngine) (new_FFilamentAsset sampleExternals))
      = Some (Inr s)"
    and u: "mNodeMap (mResult s) 0 = Some 2"
    by (simp add: sample_defs document_defs skinnedDocument_def createAsset_defs
          createPrimitive_defs createMaterialInstance_defs numeral_3_eq_3)
  obtain a L1 where c: "createAsset 3 sampleExternals ?d (new_FAssetLoader emptyEngine)
                 = Some (Inr (Some a, L1))"
    by (simp add: sample_defs document_defs skinnedDocument_def createAsset_defs
          createPrimitive_defs createMaterialInstance_defs numeral_3_eq_3)
  from skin_joints_resolved_after_traversal [OF sel t] c
  have len: "length (mSkins a) = skins_count ?d"
    and j: "\<forall>k. k < skins_count ?d \<longrightarrow> map (mNodeMap (mResult s)) (joints (skin_at ?d k))
                                     = map Some (skin_joints (mSkins a ! k))"
    by simp_all
  from len obtain sk where sk: "mSkins a = [sk]"
    by (cases "mSkins a") (simp_all add: skinnedDocument_def)
  from j [THEN spec, of 0] u sk have "map Some (skin_joints sk) = map Some [2]"
    by (simp add: skinnedDocument_def)
  then have "skin_joints sk = [2]"
    by (simp only: inj_map_eq_map [OF inj_Some])
  with sk c show "\<exists>a L1. createAsset 3 sampleExternals ?d (new_FAssetLoader emptyEngine)
                 = Some (Inr (Some a, L1))
         \<and> map skin_joints (mSkins a) = [[2]]"
    by simp
qed

section \<open>The mesh cache\<close>















section \<open>The visit of a node\<close>




section \<open>The nodes that the traversal visits\<close>

lemma createRenderable_root:
  assumes "createRenderable X d node entity s = Inr s1"
  shows "mRoot (mResult s1) = mRoot (mResult s)"
proof -
  from assms obtain m where m: "mesh (node_at d node) = Some m"
    by (auto simp: createRenderable_def split: option.splits)
  define s0 where "s0 = (case mMeshCache s m of
      None \<Rightarrow> s\<lparr>mMeshCache := (mMeshCache s)(m \<mapsto>
          replicate (length (primitives (mesh_at d m)))
            \<lparr>vertices = None, prim_indices = None, aabb = Aabb_default X\<rparr>)\<rparr>
    | Some _ \<Rightarrow> s)"
  have n0: "nodesOf s0 = nodesOf s"
    by (simp add: s0_def nodesOf_def split: option.splits)
  from assms m obtain b box s2 where
    rp: "renderablePrimitives X d entity m (primitives (mesh_at d m)) 0
           (replicate (length (primitives (mesh_at d m)))
              \<lparr>entry_material = None, entry_geometry = None\<rparr>) (Aabb_default X) s0
         = Inr (b, box, s2)"
    and r: "mRoot (mResult s1) = mRoot (mResult s2)"
    by (auto simp: createRenderable_def Let_def s0_def onResult_def onEngine_def
          split: option.splits sum.splits)
  from renderablePrimitives_nodes [OF rp] n0 r show ?thesis
    by (simp add: nodesOf_def)
qed

lemma visitNode_nodes:
  assumes "visitNode X d node parent s = Inr (entity, s1)"
  shows "entity = Suc (entityCount (engine s))
         \<and> entityCount (engine s1) = Suc (entityCount (engine s))
         \<and> mNodeMap (mResult s1) = (mNodeMap (mResult s))(node \<mapsto> entity)
         \<and> mEntities (mResult s1) = mEntities (mResult s) @ [entity]
         \<and> mRoot (mResult s1) = mRoot (mResult s)"
proof -
  define s3 where "s3 = onResult (\<lambda>a. a\<lparr>mEntities := mEntities a @ [Suc (entityCount (engine s))],
        mNodeMap := (mNodeMap a)(node \<mapsto> Suc (entityCount (engine s)))\<rparr>)
      (TransformManager_create (Suc (entityCount (engine s))) parent
        (if has_matrix (node_at d node) then node_matrix (node_at d node)
         else compose X (node_translation (node_at d node)) (node_rotation (node_at d node))
                (node_scale (node_at d node)))
        (onEngine (\<lambda>e. e\<lparr>entityCount := Suc (entityCount e)\<rparr>) s))"
  have k: "entityCount (engine s3) = Suc (entityCount (engine s))"
    "mNodeMap (mResult s3) = (mNodeMap (mResult s))(node \<mapsto> Suc (entityCount (engine s)))"
    "mEntities (mResult s3) = mEntities (mResult s) @ [Suc (entityCount (engine s))]"
    "mRoot (mResult s3) = mRoot (mResult s)"
    by (simp_all add: s3_def onResult_def onEngine_def TransformManager_create_def)
  from assms have e: "entity = Suc (entityCount (engine s))"
    by (auto simp: visitNode_def EntityManager_create_def Let_def split: if_splits sum.splits)
  from assms have "s1 = s3 \<or> createRenderable X d node (Suc (entityCount (engine s))) s3 = Inr s1"
    by (auto simp: visitNode_def EntityManager_create_def Let_def s3_def
          split: if_splits sum.splits)
  then show ?thesis
  proof
    assume "s1 = s3"
    with k e show ?thesis by simp
  next
    assume c: "createRenderable X d node (Suc (entityCount (engine s))) s3 = Inr s1"
    from createRenderable_skins [OF c] createRenderable_root [OF c] k e show ?thesis by simp
  qed
qed

lemma visitNode_entitiesCreated:
  assumes "entitiesCreated rootEntity s" and "visitNode X d node parent s = Inr (entity, s1)"
  shows "entitiesCreated rootEntity s1"
proof -
  note v = visitNode_nodes [OF assms(2)]
  from assms(1) have a: "mRoot (mResult s) = rootEntity"
    "entityCount (engine s) = rootEntity + length (mEntities (mResult s))"
    and b: "\<And>node e. mNodeMap (mResult s) node = Some e \<Longrightarrow>
            e \<in> set (mEntities (mResult s)) \<and> rootEntity < e"
    by (simp_all add: entitiesCreated_def)
  have "e \<in> set (mEntities (mResult s1)) \<and> rootEntity < e"
    if "mNodeMap (mResult s1) node' = Some e" for node' e
  proof (cases "node' = node")
    case True
    with that v a show ?thesis by simp
  next
    case False
    with that v have "mNodeMap (mResult s) node' = Some e" by simp
    from b [OF this] v show ?thesis by simp
  qed
  with v a show ?thesis by (simp add: entitiesCreated_def)
qed

lemma createEntities_entitiesCreated:
  assumes "entitiesCreated rootEntity s" and "createEntities n X d nodes parent s = Some (Inr s1)"
  shows "entitiesCreated rootEntity s1"
  by (rule createEntities_invariant [where I = "entitiesCreated rootEntity", OF _ assms])
     (rule visitNode_entitiesCreated)

lemma createEntities_keeps_nodes:
  assumes "createEntities n X d nodes parent s = Some (Inr s1)"
  shows "dom (mNodeMap (mResult s)) \<subseteq> dom (mNodeMap (mResult s1))"
proof -
  have i: "dom (mNodeMap (mResult s)) \<subseteq> dom (mNodeMap (mResult s))" by simp
  show ?thesis
  proof (rule createEntities_invariant
      [where I = "\<lambda>t. dom (mNodeMap (mResult s)) \<subseteq> dom (mNodeMap (mResult t))", OF _ i assms])
    fix node parent t entity t1
    assume a: "dom (mNodeMap (mResult s)) \<subseteq> dom (mNodeMap (mResult t))"
      and v: "visitNode X d node parent t = Inr (entity, t1)"
    from visitNode_nodes [OF v] a show "dom (mNodeMap (mResult s)) \<subseteq> dom (mNodeMap (mResult t1))"
      by auto
  qed
qed

lemma createEntities_visits:
  assumes "createEntities n X d nodes parent s = Some (Inr s1)"
  shows "set nodes \<subseteq> dom (mNodeMap (mResult s1))"
  using assms
proof (induction nodes arbitrary: s)
  case Nil
  show ?case by simp
next
  case (Cons node rest)
  from Cons.prems obtain s2 where
    e: "createEntity n X d node parent s = Some (Inr s2)"
    and r: "createEntities n X d rest parent s2 = Some (Inr s1)"
    by (auto split: option.splits sum.splits)
  from e obtain k where n: "n = Suc k" by (cases n) auto
  from e n obtain entity s3 where
    v: "visitNode X d node parent s = Inr (entity, s3)"
    and c: "createEntities k X d (children (node_at d node)) entity s3 = Some (Inr s2)"
    by (auto simp: createEntity_Suc simp del: createEntity.simps split: sum.splits)
  from visitNode_nodes [OF v] have "node \<in> dom (mNodeMap (mResult s3))" by simp
  with createEntities_keeps_nodes [OF c] createEntities_keeps_nodes [OF r]
  have "node \<in> dom (mNodeMap (mResult s1))" by blast
  with Cons.IH [OF r] show ?case by simp
qed

lemma traverseScene_visits:
  assumes tr: "traverseScene n X d sc s = Some (Inr s1)"
    and e: "mEntities (mResult s) = []" and nm: "mNodeMap (mResult s) = Map.empty"
  shows "entitiesCreated (Suc (entityCount (engine s))) s1
         \<and> set (scene_nodes sc) \<subseteq> dom (mNodeMap (mResult s1))"
proof -
  define s3 where "s3 = TransformManager_create (Suc (entityCount (engine s))) 0 mat4f_identity
      (onResult (\<lambda>a. a\<lparr>mRoot := Suc (entityCount (engine s))\<rparr>)
        (onEngine (\<lambda>e. e\<lparr>entityCount := Suc (entityCount e)\<rparr>) s))"
  have i: "entitiesCreated (Suc (entityCount (engine s))) s3"
    using e nm
    by (simp add: entitiesCreated_def s3_def onResult_def onEngine_def TransformManager_create_def)
  from tr have c: "createEntities n X d (scene_nodes sc) (Suc (entityCount (engine s))) s3
      = Some (Inr s1)"
    by (simp add: traverseScene_def EntityManager_create_def Let_def s3_def)
  from createEntities_entitiesCreated [OF i c] createEntities_visits [OF c] show ?thesis
    by simp
qed

lemma importSkins_frame:
  assumes "importSkins d ks a = Inr a1"
  shows "mRoot a1 = mRoot a \<and> mEntities a1 = mEntities a \<and> mNodeMap a1 = mNodeMap a"
  using assms
proof (induction ks arbitrary: a)
  case Nil
  then show ?case by simp
next
  case (Cons i rest)
  from Cons.prems obtain sk where
    "importSkins d rest (a\<lparr>mSkins := (mSkins a)[i := sk]\<rparr>) = Inr a1"
    by (auto split: if_splits sum.splits)
  from Cons.IH [OF this] show ?case by simp
qed

lemma skinTargets_frame:
  assumes "skinTargets d ks a = Inr a1"
  shows "mRoot a1 = mRoot a \<and> mEntities a1 = mEntities a
         \<and> (\<forall>node e. mNodeMap a node = Some e \<longrightarrow> mNodeMap a1 node = Some e)"
  using assms
proof (induction ks arbitrary: a)
  case Nil
  then show ?case by simp
next
  case (Cons i rest)
  show ?case
  proof (cases "skin (node_at d i)")
    case None
    with Cons.prems have "skinTargets d rest a = Inr a1" by simp
    from Cons.IH [OF this] show ?thesis .
  next
    case (Some k)
    define entity where "entity = (case mNodeMap a i of Some e \<Rightarrow> e | None \<Rightarrow> 0)"
    define a2 where "a2 = a\<lparr>mNodeMap := (mNodeMap a)(i \<mapsto> entity)\<rparr>"
    define a3 where "a3 = a2\<lparr>mSkins := (mSkins a2)[k :=
        (mSkins a2 ! k)\<lparr>targets := targets (mSkins a2 ! k) @ [entity]\<rparr>]\<rparr>"
    from Cons.prems Some have r: "skinTargets d rest a3 = Inr a1"
      by (auto simp: Let_def a3_def a2_def entity_def split: if_splits)
    have k3: "mRoot a3 = mRoot a" "mEntities a3 = mEntities a"
      "\<And>node e. mNodeMap a node = Some e \<Longrightarrow> mNodeMap a3 node = Some e"
      by (auto simp: a3_def a2_def entity_def)
    from Cons.IH [OF r] k3 show ?thesis by simp
  qed
qed

lemma finishAsset_Inr:
  assumes "finishAsset d s = Inr (r, L1)"
  shows "\<exists>a. r = Some a \<and> mRoot a = mRoot (mResult s) \<and> mEntities a = mEntities (mResult s)
           \<and> (\<forall>node e. mNodeMap (mResult s) node = Some e \<longrightarrow> mNodeMap a node = Some e)
           \<and> engine L1 = engine s"
proof -
  define a1 where "a1 = (mResult s)\<lparr>mSkins := replicate (skins_count d)
      \<lparr>name = None, skin_joints = [], targets = []\<rparr>\<rparr>"
  from assms obtain a2 a3 where
    i: "importSkins d [0 ..< skins_count d] a1 = Inr a2"
    and t: "skinTargets d [0 ..< nodes_count d] a2 = Inr a3"
    and r: "r = Some a3" and l: "engine L1 = engine s"
    by (auto simp: finishAsset_def Let_def a1_def loader_of_def
          split: if_splits sum.splits)
  have k: "mRoot a1 = mRoot (mResult s)" "mEntities a1 = mEntities (mResult s)"
    "mNodeMap a1 = mNodeMap (mResult s)"
    by (simp_all add: a1_def)
  from importSkins_frame [OF i] skinTargets_frame [OF t] k r l show ?thesis by simp
qed


text \<open>
  Claim C10. When the document names no default scene, \<^verbatim>\<open>createAsset\<close> traverses the first
  scene of the scene list: its outcome is that of the traversal of that scene, started on
  the fresh asset and followed by the skin phase, and it is what \<^verbatim>\<open>createAsset\<close> does on the
  same document with that scene as the default scene. Whenever it then returns, it returns
  an asset whose root entity is the first entity created in the engine, in which every root
  node of the first scene is in the node map with an entity of the asset's entity list
  created after the root entity, and every entity created is the root or in that list. When
  the scene list is empty as well, \<^verbatim>\<open>createAsset\<close> returns, for every bound on the depth, an
  asset and the loader unchanged: no root entity was created (the root is the null entity
  and the engine is as before), no node was traversed (no entity, an empty node map, no
  binding, the default bounding box), the error flag is as before, and the skin list is
  empty whatever the number of skins of the document.
\<close>

theorem default_scene_selection:
  assumes "scene d = None"
  shows "(\<forall>sc rest. scenes d = sc # rest \<longrightarrow>
            createAsset n X d L
              = (case traverseScene n X d sc (with_result L (new_FFilamentAsset X)) of
                   None \<Rightarrow> None
                 | Some (Inl e) \<Rightarrow> Some (Inl e)
                 | Some (Inr s) \<Rightarrow> Some (finishAsset d s))
            \<and> createAsset n X d L = createAsset n X (d\<lparr>scene := Some sc\<rparr>) L
            \<and> (\<forall>r L1. createAsset n X d L = Some (Inr (r, L1)) \<longrightarrow>
                  (\<exists>a. r = Some a
                     \<and> mRoot a = Suc (entityCount (engine L))
                     \<and> entityCount (engine L1) = mRoot a + length (mEntities a)
                     \<and> (\<forall>node\<in>set (scene_nodes sc).
                           \<exists>e. mNodeMap a node = Some e \<and> e \<in> set (mEntities a)
                              \<and> mRoot a < e))))
         \<and> (scenes d = [] \<longrightarrow>
              (\<exists>a. createAsset n X d L = Some (Inr (Some a, L))
                 \<and> mRoot a = 0 \<and> mEntities a = [] \<and> mNodeMap a = Map.empty
                 \<and> mSkins a = [] \<and> mMaterialInstances a = [] \<and> mBufferBindings a = []
                 \<and> mBoundingBox a = Aabb_default X))"
proof (intro conjI allI impI)
  fix sc rest
  assume "scenes d = sc # rest"
  with assms show "createAsset n X d L
              = (case traverseScene n X d sc (with_result L (new_FFilamentAsset X)) of
                   None \<Rightarrow> None
                 | Some (Inl e) \<Rightarrow> Some (Inl e)
                 | Some (Inr s) \<Rightarrow> Some (finishAsset d s))"
    by (simp add: createAsset_def selectScene_def)
next
  fix sc rest
  assume "scenes d = sc # rest"
  with assms show "createAsset n X d L = createAsset n X (d\<lparr>scene := Some sc\<rparr>) L"
    by (simp add: createAsset_def selectScene_def traverseScene_def createEntity_scene
          cong: option.case_cong sum.case_cong)
next
  fix sc rest r L1
  assume sc: "scenes d = sc # rest" and ca: "createAsset n X d L = Some (Inr (r, L1))"
  let ?s0 = "with_result L (new_FFilamentAsset X)"
  from assms sc have "createAsset n X d L
              = (case traverseScene n X d sc ?s0 of
                   None \<Rightarrow> None
                 | Some (Inl e) \<Rightarrow> Some (Inl e)
                 | Some (Inr s) \<Rightarrow> Some (finishAsset d s))"
    by (simp add: createAsset_def selectScene_def)
  with ca obtain s where tr: "traverseScene n X d sc ?s0 = Some (Inr s)"
    and fa: "finishAsset d s = Inr (r, L1)"
    by (auto split: option.splits sum.splits)
  have "entitiesCreated (Suc (entityCount (engine ?s0))) s
         \<and> set (scene_nodes sc) \<subseteq> dom (mNodeMap (mResult s))"
    by (rule traverseScene_visits [OF tr])
       (simp_all add: with_result_def new_FFilamentAsset_def)
  then have ec: "entitiesCreated (Suc (entityCount (engine L))) s"
    and vs: "set (scene_nodes sc) \<subseteq> dom (mNodeMap (mResult s))"
    by (simp_all add: with_result_def)
  from ec have rt: "mRoot (mResult s) = Suc (entityCount (engine L))"
    and cnt: "entityCount (engine s) = Suc (entityCount (engine L)) + length (mEntities (mResult s))"
    and ent: "\<And>node e. mNodeMap (mResult s) node = Some e \<Longrightarrow>
            e \<in> set (mEntities (mResult s)) \<and> Suc (entityCount (engine L)) < e"
    by (simp_all add: entitiesCreated_def)
  from finishAsset_Inr [OF fa] obtain a where a: "r = Some a"
    and ra: "mRoot a = mRoot (mResult s)" and ea: "mEntities a = mEntities (mResult s)"
    and na: "\<And>node e. mNodeMap (mResult s) node = Some e \<Longrightarrow> mNodeMap a node = Some e"
    and la: "engine L1 = engine s"
    by blast
  have "\<exists>e. mNodeMap a node = Some e \<and> e \<in> set (mEntities a) \<and> mRoot a < e"
    if "node \<in> set (scene_nodes sc)" for node
  proof -
    from that vs obtain e where e: "mNodeMap (mResult s) node = Some e" by blast
    from ent [OF e] na [OF e] ra ea rt show ?thesis by simp
  qed
  then have "\<forall>node\<in>set (scene_nodes sc).
      \<exists>e. mNodeMap a node = Some e \<and> e \<in> set (mEntities a) \<and> mRoot a < e"
    by (rule ballI)
  with a ra rt cnt ea la
  show "\<exists>a. r = Some a
          \<and> mRoot a = Suc (entityCount (engine L))
          \<and> entityCount (engine L1) = mRoot a + length (mEntities a)
          \<and> (\<forall>node\<in>set (scene_nodes sc).
                \<exists>e. mNodeMap a node = Some e \<and> e \<in> set (mEntities a) \<and> mRoot a < e)"
    by simp
next
  assume "scenes d = []"
  with assms have "createAsset n X d L = Some (Inr (Some (new_FFilamentAsset X), L))"
    by (simp add: createAsset_def selectScene_def)
  then show "\<exists>a. createAsset n X d L = Some (Inr (Some a, L))
                 \<and> mRoot a = 0 \<and> mEntities a = [] \<and> mNodeMap a = Map.empty
                 \<and> mSkins a = [] \<and> mMaterialInstances a = [] \<and> mBufferBindings a = []
                 \<and> mBoundingBox a = Aabb_default X"
    by (simp add: new_FFilamentAsset_def)
qed

theorem default_scene_selection_witness:
  "(\<exists>a L1. createAsset 2 sampleExternals twoSceneDocument (new_FAssetLoader emptyEngine)
              = Some (Inr (Some a, L1))
       \<and> mRoot a = 1 \<and> mEntities a = [2] \<and> mNodeMap a 0 = Some 2 \<and> mNodeMap a 1 = None
       \<and> entityCount (engine L1) = 2)
   \<and> (\<exists>a. createAsset 0 sampleExternals (emptyDocument\<lparr>skins_count := 1\<rparr>) (new_FAssetLoader emptyEngine)
            = Some (Inr (Some a, new_FAssetLoader emptyEngine))
        \<and> mRoot a = 0 \<and> mEntities a = [] \<and> mSkins a = [])"
proof
  let ?L = "new_FAssetLoader emptyEngine"
  have a: "scene twoSceneDocument = None"
    by (simp add: twoSceneDocument_def emptyDocument_def)
  have b: "scenes twoSceneDocument = \<lparr>scene_nodes = [0]\<rparr> # [\<lparr>scene_nodes = [1]\<rparr>]"
    by (simp add: twoSceneDocument_def emptyDocument_def)
  obtain a0 L1 where ca: "createAsset 2 sampleExternals twoSceneDocument ?L
              = Some (Inr (Some a0, L1))"
    and es: "mEntities a0 = [2]" and n1: "mNodeMap a0 1 = None"
    by (simp add: sample_defs document_defs twoSceneDocument_def createAsset_defs
          createPrimitive_defs numeral_2_eq_2 upt_rec)
  note t = default_scene_selection [OF a, THEN conjunct1, THEN spec, THEN spec, THEN mp, OF b]
  note t3 = t [THEN conjunct2, THEN conjunct2, THEN spec, THEN spec, THEN mp, OF ca]
  from t3 obtain a' where f: "Some a0 = Some a'
      \<and> mRoot a' = Suc (entityCount (engine ?L))
      \<and> entityCount (engine L1) = mRoot a' + length (mEntities a')
      \<and> (\<forall>node\<in>set (scene_nodes \<lparr>scene_nodes = [0]\<rparr>).
            \<exists>e. mNodeMap a' node = Some e \<and> e \<in> set (mEntities a') \<and> mRoot a' < e)"
    ..
  from f have eq: "a' = a0" by simp
  from f have rt: "mRoot a0 = 1"
    unfolding eq by (simp add: new_FAssetLoader_def emptyEngine_def)
  from f es rt have cnt: "entityCount (engine L1) = 2"
    unfolding eq by simp
  from f es have n0: "mNodeMap a0 0 = Some 2"
    unfolding eq by auto
  from ca rt es n0 n1 cnt
  show "\<exists>a L1. createAsset 2 sampleExternals twoSceneDocument ?L = Some (Inr (Some a, L1))
       \<and> mRoot a = 1 \<and> mEntities a = [2] \<and> mNodeMap a 0 = Some 2 \<and> mNodeMap a 1 = None
       \<and> entityCount (engine L1) = 2"
    by (intro exI [of _ a0] exI [of _ L1] conjI)
next
  have a: "scene (emptyDocument\<lparr>skins_count := 1\<rparr>) = None"
    by (simp add: emptyDocument_def)
  have b: "scenes (emptyDocument\<lparr>skins_count := 1\<rparr>) = []"
    by (simp add: emptyDocument_def)
  from default_scene_selection [OF a, THEN conjunct2, THEN mp, OF b]
  show "\<exists>a. createAsset 0 sampleExternals (emptyDocument\<lparr>skins_count := 1\<rparr>) (new_FAssetLoader emptyEngine)
            = Some (Inr (Some a, new_FAssetLoader emptyEngine))
        \<and> mRoot a = 0 \<and> mEntities a = [] \<and> mSkins a = []"
    by blast
qed

section \<open>The index buffer of a primitive\<close>

lemma accessorBinding_returns:
  "(\<exists>b. accessorBinding X a slot vb ib conv = Inr b) = (buffer_view a \<noteq> None)"
  by (cases "buffer_view a") (simp_all add: accessorBinding_def computeBindingOffset_def)

lemma bindAttributes_returns:
  "(\<exists>s1. bindAttributes X uvmap vb attrs slot s = Inr s1)
     = list_all (\<lambda>a. \<not> boundAttribute uvmap a \<or> buffer_view (attr_data a) \<noteq> None) attrs"
proof (induction attrs arbitrary: slot s)
  case Nil
  show ?case by simp
next
  case (Cons a rest)
  show ?case
  proof (cases "boundAttribute uvmap a")
    case False
    then have "bindAttributes X uvmap vb (a # rest) slot s
        = bindAttributes X uvmap vb rest (Suc slot) s"
      by (auto simp: boundAttribute_def)
    with False Cons.IH [of "Suc slot" s] show ?thesis by simp
  next
    case True
    then have b: "bindAttributes X uvmap vb (a # rest) slot s
        = (case accessorBinding X (attr_data a) slot (Some vb) None False of
             Inl e \<Rightarrow> Inl e
           | Inr b \<Rightarrow> bindAttributes X uvmap vb rest (Suc slot) (addBufferBinding b s))"
      by (auto simp: boundAttribute_def)
    show ?thesis
    proof (cases "buffer_view (attr_data a)")
      case None
      then have "accessorBinding X (attr_data a) slot (Some vb) None False
          = Inl NullPointerDereference"
        by (simp add: accessorBinding_def)
      with b True None show ?thesis by simp
    next
      case (Some bv)
      with accessorBinding_returns [of X "attr_data a" slot "Some vb" None False]
      obtain b0 where "accessorBinding X (attr_data a) slot (Some vb) None False = Inr b0"
        by auto
      with b have "bindAttributes X uvmap vb (a # rest) slot s
          = bindAttributes X uvmap vb rest (Suc slot) (addBufferBinding b0 s)"
        by simp
      with True Some Cons.IH [of "Suc slot" "addBufferBinding b0 s"] show ?thesis by simp
    qed
  qed
qed

lemma createIndices_trivial:
  assumes "indices inPrim = None" and "attributes inPrim \<noteq> []"
  shows "createIndices X inPrim s =
     Inr (Some (length (indexBuffers (engine s))),
          addBufferBinding
            \<lparr>bb_uri = None, bb_totalSize = 0, bb_bufferIndex = 0, bb_offset = 0,
             bb_size = ucast (acc_count (attr_data (hd (attributes inPrim))) * 4),
             bb_data = None, bb_vertexBuffer = None,
             bb_indexBuffer = Some (length (indexBuffers (engine s))),
             convertBytesToShorts = False, generateTrivialIndices = True\<rparr>
            (onEngine (\<lambda>e. e\<lparr>indexBuffers := indexBuffers e @
               [\<lparr>ib_indexCount = ucast (acc_count (attr_data (hd (attributes inPrim)))),
                 ib_bufferType = UINT\<rparr>]\<rparr>) s))"
  using assms
  by (cases "attributes inPrim") (simp_all add: createIndices_def IndexBuffer_build_def Let_def)

lemma createIndices_no_attribute:
  assumes "indices inPrim = None" and "attributes inPrim = []"
  shows "createIndices X inPrim s = Inl OutOfBounds"
  using assms by (simp add: createIndices_def)

lemma createIndices_accessor:
  assumes "indices inPrim = Some a" and "getIndexType X (component_type a) = Some t"
  shows "createIndices X inPrim s =
     (case accessorBinding X a 0 None (Some (length (indexBuffers (engine s))))
             (component_type a = cgltf_component_type_r_8u) of
        Inl e \<Rightarrow> Inl e
      | Inr b \<Rightarrow>
          Inr (Some (length (indexBuffers (engine s))),
               addBufferBinding b
                 (onEngine (\<lambda>e. e\<lparr>indexBuffers := indexBuffers e @
                    [\<lparr>ib_indexCount = ucast (acc_count a), ib_bufferType = t\<rparr>]\<rparr>) s)))"
  using assms by (simp add: createIndices_def IndexBuffer_build_def Let_def)

lemma createIndices_rejected:
  assumes "indices inPrim = Some a" and "getIndexType X (component_type a) = None"
  shows "createIndices X inPrim s = Inr (None, s)"
  using assms by (simp add: createIndices_def)

lemma createIndices_returns:
  "(\<exists>r. createIndices X inPrim s = Inr r)
     = (case indices inPrim of
          None \<Rightarrow> attributes inPrim \<noteq> []
        | Some a \<Rightarrow>
            (case getIndexType X (component_type a) of
               None \<Rightarrow> True
             | Some t \<Rightarrow> buffer_view a \<noteq> None))"
proof (cases "indices inPrim")
  case None
  show ?thesis
  proof (cases "attributes inPrim = []")
    case True
    with None createIndices_no_attribute [OF None True, of X s] show ?thesis by simp
  next
    case False
    with None createIndices_trivial [OF None False, of X s] show ?thesis by simp
  qed
next
  case (Some a)
  show ?thesis
  proof (cases "getIndexType X (component_type a)")
    case None
    with Some createIndices_rejected [OF Some None, of s] show ?thesis by simp
  next
    case t: (Some t)
    show ?thesis
    proof (cases "buffer_view a")
      case None
      then have "accessorBinding X a 0 None (Some (length (indexBuffers (engine s))))
             (component_type a = cgltf_component_type_r_8u) = Inl NullPointerDereference"
        by (simp add: accessorBinding_def)
      with Some t None createIndices_accessor [OF Some t, of s] show ?thesis by simp
    next
      case bv: (Some bv)
      with accessorBinding_returns [of X a 0 None "Some (length (indexBuffers (engine s)))"
          "component_type a = cgltf_component_type_r_8u"]
      obtain b where "accessorBinding X a 0 None (Some (length (indexBuffers (engine s))))
             (component_type a = cgltf_component_type_r_8u) = Inr b"
        by auto
      with Some t bv createIndices_accessor [OF Some t, of s] show ?thesis by simp
    qed
  qed
qed

text \<open>
  What \<^verbatim>\<open>createPrimitive\<close> does after the index buffer: it appends vertex bindings only,
  builds no index buffer, and stores the handle of the index buffer in the \<^verbatim>\<open>Primitive\<close>
  when it returns true.
\<close>

lemma createPrimitive_after_indices:
  assumes "createPrimitive X addr inPrim outPrim uvmap s = Inr (ok, outPrim1, s2)"
  shows "\<exists>r s1 vb vs. createIndices X inPrim s = Inr (r, s1)
           \<and> mBufferBindings (mResult s2) = mBufferBindings (mResult s1) @ vs
           \<and> list_all (attributeBinding X vb (attributes inPrim) 0) vs
           \<and> indexBuffers (engine s2) = indexBuffers (engine s1)
           \<and> (r = None \<longrightarrow> \<not> ok)
           \<and> (\<not> ok \<longrightarrow> vs = [])
           \<and> (ok \<longrightarrow> prim_indices outPrim1 = r)"
proof -
  from assms obtain r s1 where ci: "createIndices X inPrim s = Inr (r, s1)"
    by (auto simp: createPrimitive_def split: sum.splits)
  show ?thesis
  proof (cases "ok")
    case False
    with assms ci have "s2 = s1"
      by (auto simp: createPrimitive_def VertexBuffer_build_def Let_def
            split: option.splits prod.splits bool.splits sum.splits if_splits)
    with ci False have "createIndices X inPrim s = Inr (r, s1)
           \<and> mBufferBindings (mResult s2) = mBufferBindings (mResult s1) @ []
           \<and> list_all (attributeBinding X 0 (attributes inPrim) 0) []
           \<and> indexBuffers (engine s2) = indexBuffers (engine s1)
           \<and> (r = None \<longrightarrow> \<not> ok)
           \<and> (\<not> ok \<longrightarrow> [] = ([] :: BufferBinding list))
           \<and> (ok \<longrightarrow> prim_indices outPrim1 = r)"
      by simp
    then show ?thesis by blast
  next
    case True
    with assms ci obtain vb s3 where
      ba: "bindAttributes X uvmap vb (attributes inPrim) 0 s3 = Inr s2"
      and s3: "mBufferBindings (mResult s3) = mBufferBindings (mResult s1)"
        "indexBuffers (engine s3) = indexBuffers (engine s1)"
      and r: "r \<noteq> None" "prim_indices outPrim1 = r"
      by (auto simp: createPrimitive_def VertexBuffer_build_def Let_def onResult_def onEngine_def
            split: option.splits prod.splits bool.splits sum.splits if_splits)
    from bindAttributes_bindings [OF ba] s3 obtain vs where
      vs: "mBufferBindings (mResult s2) = mBufferBindings (mResult s1) @ vs"
        "list_all (attributeBinding X vb (attributes inPrim) 0) vs"
      by auto
    from bindAttributes_frame [OF ba] s3 have "indexBuffers (engine s2) = indexBuffers (engine s1)"
      by (simp add: geometryOf_def)
    with ci vs r True have "createIndices X inPrim s = Inr (r, s1)
           \<and> mBufferBindings (mResult s2) = mBufferBindings (mResult s1) @ vs
           \<and> list_all (attributeBinding X vb (attributes inPrim) 0) vs
           \<and> indexBuffers (engine s2) = indexBuffers (engine s1)
           \<and> (r = None \<longrightarrow> \<not> ok)
           \<and> (\<not> ok \<longrightarrow> vs = [])
           \<and> (ok \<longrightarrow> prim_indices outPrim1 = r)"
      by simp
    then show ?thesis by blast
  qed
qed

lemma createPrimitive_returns_iff:
  "(\<exists>res. createPrimitive X addr inPrim outPrim uvmap s = Inr res)
     = createPrimitive_returns X inPrim outPrim uvmap"
proof (cases "createIndices X inPrim s")
  case (Inl e)
  then have a: "createPrimitive X addr inPrim outPrim uvmap s = Inl e"
    by (simp add: createPrimitive_def)
  from Inl have "\<not> (\<exists>r. createIndices X inPrim s = Inr r)" by simp
  then have "\<not> (case indices inPrim of
          None \<Rightarrow> attributes inPrim \<noteq> []
        | Some a \<Rightarrow>
            (case getIndexType X (component_type a) of
               None \<Rightarrow> True
             | Some t \<Rightarrow> buffer_view a \<noteq> None))"
    unfolding createIndices_returns .
  then have "\<not> createPrimitive_returns X inPrim outPrim uvmap"
    by (auto simp: createPrimitive_returns_def split: option.splits)
  with a show ?thesis by simp
next
  case (Inr rs)
  obtain r s1 where rs: "rs = (r, s1)" by (cases rs)
  from Inr have "\<exists>r. createIndices X inPrim s = Inr r" by simp
  then have ret: "case indices inPrim of
          None \<Rightarrow> attributes inPrim \<noteq> []
        | Some a \<Rightarrow>
            (case getIndexType X (component_type a) of
               None \<Rightarrow> True
             | Some t \<Rightarrow> buffer_view a \<noteq> None)"
    unfolding createIndices_returns .
  show ?thesis
  proof (cases r)
    case None
    with Inr rs have a: "createPrimitive X addr inPrim outPrim uvmap s = Inr (False, outPrim, s1)"
      by (simp add: createPrimitive_def)
    from Inr rs None obtain a0 where "indices inPrim = Some a0"
        "getIndexType X (component_type a0) = None"
      by (auto simp: createIndices_def IndexBuffer_build_def Let_def
            split: option.splits list.splits sum.splits)
    then have "createPrimitive_returns X inPrim outPrim uvmap"
      by (simp add: createPrimitive_returns_def)
    with a show ?thesis by blast
  next
    case (Some ib)
    from Inr rs Some have nr: "\<not> (\<exists>a0. indices inPrim = Some a0
        \<and> getIndexType X (component_type a0) = None)"
      by (auto simp: createIndices_def split: option.splits)
    from ret nr have cr: "createPrimitive_returns X inPrim outPrim uvmap
        = (\<not> attributesAccepted X inPrim outPrim uvmap \<or> viewsPresent inPrim uvmap)"
      by (auto simp: createPrimitive_returns_def split: option.splits)
    obtain okd vbb box where da: "declareAttributes X uvmap (attributes inPrim) 0
        \<lparr>vb_bufferCount = length (attributes inPrim), vb_vertexCount = None,
         vb_attributes = [], vb_normalized = []\<rparr> (aabb outPrim) = (okd, vbb, box)"
      by (metis prod_cases3)
    show ?thesis
    proof (cases okd)
      case False
      with Inr rs Some da have "createPrimitive X addr inPrim outPrim uvmap s
          = Inr (False, outPrim\<lparr>aabb := box\<rparr>, s1)"
        by (simp add: createPrimitive_def)
      moreover from False da have "\<not> attributesAccepted X inPrim outPrim uvmap"
        by (simp add: attributesAccepted_def)
      ultimately show ?thesis using cr by blast
    next
      case True
      define s3 where "s3 = onResult (\<lambda>a. a\<lparr>mPrimMap := (mPrimMap a)(addr \<mapsto>
          length (vertexBuffers (engine s1)))\<rparr>)
          (onEngine (\<lambda>e. e\<lparr>vertexBuffers := vertexBuffers e @ [vbb]\<rparr>) s1)"
      from Inr rs Some da True have cp: "createPrimitive X addr inPrim outPrim uvmap s
          = (case bindAttributes X uvmap (length (vertexBuffers (engine s1)))
                    (attributes inPrim) 0 s3 of
               Inl e \<Rightarrow> Inl e
             | Inr s4 \<Rightarrow> Inr (True, outPrim\<lparr>aabb := box, prim_indices := Some ib,
                   vertices := Some (length (vertexBuffers (engine s1)))\<rparr>, s4))"
        by (simp add: createPrimitive_def VertexBuffer_build_def Let_def s3_def)
      from True da have acc: "attributesAccepted X inPrim outPrim uvmap"
        by (simp add: attributesAccepted_def)
      have "(\<exists>res. createPrimitive X addr inPrim outPrim uvmap s = Inr res)
          = (\<exists>s4. bindAttributes X uvmap (length (vertexBuffers (engine s1)))
                    (attributes inPrim) 0 s3 = Inr s4)"
        unfolding cp by (auto split: sum.splits)
      also have "\<dots> = viewsPresent inPrim uvmap"
        unfolding bindAttributes_returns viewsPresent_def ..
      finally show ?thesis using cr acc by simp
    qed
  qed
qed


text \<open>
  Claim C6, as stated, fails for a primitive with no index accessor and no attribute:
  \<^verbatim>\<open>createPrimitive\<close> reads the vertex count from \<^verbatim>\<open>inPrim->attributes[0]\<close>, out of the bounds of
  the attribute array, before it has built an index buffer or emitted a binding.
\<close>

theorem no_attribute_no_index_binding:
  "indices (plainPrimitive\<lparr>attributes := []\<rparr>) = None
   \<and> createPrimitive sampleExternals (0, 0) (plainPrimitive\<lparr>attributes := []\<rparr>)
         (new_Primitive sampleExternals) (\<lambda>i. UV0) sampleState
       = Inl OutOfBounds"
  by (simp add: sample_defs createPrimitive_defs)

text \<open>
  Claim C6, amended. \<^verbatim>\<open>createPrimitive\<close> returns exactly on the inputs of
  \<open>createPrimitive_returns\<close>; on a primitive with no index accessor and no attribute it reads
  out of bounds. Whenever it returns:
  \<^item> for a primitive with no index accessor (which then has an attribute) it has built one
    index buffer, of 32-bit indices and with the vertex count of the first attribute, and
    the first binding it has appended is for that index buffer: it holds the handle of the
    buffer just built, has the generate-trivial-indices flag set and no URI, no data
    pointer, offset 0 and total size 0, and its size is four bytes for each vertex. No other
    binding it has appended is for an index buffer or has that flag. When it returns true,
    that index buffer is the one of the \<^verbatim>\<open>Primitive\<close>;
  \<^item> for a primitive whose index accessor has 8-bit unsigned components: when
    \<^verbatim>\<open>getIndexType\<close> rejects them it returns false and has built and appended nothing; else it
    has built one index buffer, with the count of the accessor and the type \<^verbatim>\<open>getIndexType\<close>
    gives, and the first binding it has appended is for that index buffer, has the
    conversion flag set, not the generate-trivial-indices flag, and the size and offset of
    the accessor. No other binding it has appended is for an index buffer or has the
    conversion flag. When it returns true, that index buffer is the one of the \<^verbatim>\<open>Primitive\<close>.
\<close>

theorem index_binding_of_primitive:
  "((\<exists>res. createPrimitive X addr inPrim outPrim uvmap s = Inr res)
      = createPrimitive_returns X inPrim outPrim uvmap)
   \<and> (indices inPrim = None \<and> attributes inPrim = [] \<longrightarrow>
        createPrimitive X addr inPrim outPrim uvmap s = Inl OutOfBounds)
   \<and> (\<forall>ok outPrim1 s1.
        createPrimitive X addr inPrim outPrim uvmap s = Inr (ok, outPrim1, s1) \<longrightarrow>
          (indices inPrim = None \<longrightarrow>
             attributes inPrim \<noteq> []
             \<and> (\<exists>b vs. mBufferBindings (mResult s1) = mBufferBindings (mResult s) @ b # vs
                   \<and> syntheticBinding b
                   \<and> bb_indexBuffer b = Some (length (indexBuffers (engine s)))
                   \<and> bb_size b = ucast (acc_count (attr_data (hd (attributes inPrim))) * 4)
                   \<and> (\<forall>v\<in>set vs. \<not> isIndexBinding v \<and> \<not> generateTrivialIndices v)
                   \<and> (ok \<longrightarrow> prim_indices outPrim1 = bb_indexBuffer b))
             \<and> indexBuffers (engine s1) = indexBuffers (engine s) @
                  [\<lparr>ib_indexCount = ucast (acc_count (attr_data (hd (attributes inPrim)))),
                    ib_bufferType = UINT\<rparr>])
          \<and> (\<forall>a. indices inPrim = Some a
                   \<and> component_type a = cgltf_component_type_r_8u \<longrightarrow>
                (case getIndexType X cgltf_component_type_r_8u of
                   None \<Rightarrow>
                     \<not> ok \<and> mBufferBindings (mResult s1) = mBufferBindings (mResult s)
                     \<and> indexBuffers (engine s1) = indexBuffers (engine s)
                 | Some t \<Rightarrow>
                     (\<exists>b vs. mBufferBindings (mResult s1) = mBufferBindings (mResult s) @ b # vs
                        \<and> convertBytesToShorts b \<and> \<not> generateTrivialIndices b
                        \<and> bb_indexBuffer b = Some (length (indexBuffers (engine s)))
                        \<and> sizeFormula X a b \<and> offsetFormula a b
                        \<and> (\<forall>v\<in>set vs. \<not> isIndexBinding v \<and> \<not> convertBytesToShorts v)
                        \<and> (ok \<longrightarrow> prim_indices outPrim1 = bb_indexBuffer b))
                     \<and> indexBuffers (engine s1) = indexBuffers (engine s) @
                          [\<lparr>ib_indexCount = ucast (acc_count a), ib_bufferType = t\<rparr>])))"
proof (intro conjI allI impI)
  show "(\<exists>res. createPrimitive X addr inPrim outPrim uvmap s = Inr res)
      = createPrimitive_returns X inPrim outPrim uvmap"
    by (rule createPrimitive_returns_iff)
next
  assume "indices inPrim = None \<and> attributes inPrim = []"
  then have "createIndices X inPrim s = Inl OutOfBounds"
    by (simp add: createIndices_no_attribute)
  then show "createPrimitive X addr inPrim outPrim uvmap s = Inl OutOfBounds"
    by (simp add: createPrimitive_def)
next
  fix ok outPrim1 s2
  assume cp: "createPrimitive X addr inPrim outPrim uvmap s = Inr (ok, outPrim1, s2)"
    and none: "indices inPrim = None"
  from createPrimitive_after_indices [OF cp] obtain r s1 vb vs where
    ci: "createIndices X inPrim s = Inr (r, s1)"
    and vs: "mBufferBindings (mResult s2) = mBufferBindings (mResult s1) @ vs"
      "list_all (attributeBinding X vb (attributes inPrim) 0) vs"
    and ib: "indexBuffers (engine s2) = indexBuffers (engine s1)"
    and ok: "ok \<longrightarrow> prim_indices outPrim1 = r"
    by blast
  from ci none show ne: "attributes inPrim \<noteq> []"
    by (auto simp: createIndices_no_attribute)
  let ?b = "\<lparr>bb_uri = None, bb_totalSize = 0, bb_bufferIndex = 0, bb_offset = 0,
             bb_size = ucast (acc_count (attr_data (hd (attributes inPrim))) * 4),
             bb_data = None, bb_vertexBuffer = None,
             bb_indexBuffer = Some (length (indexBuffers (engine s))),
             convertBytesToShorts = False, generateTrivialIndices = True\<rparr>"
  from ci createIndices_trivial [OF none ne, of X s]
  have r: "r = Some (length (indexBuffers (engine s)))"
    and s1: "s1 = addBufferBinding ?b
        (onEngine (\<lambda>e. e\<lparr>indexBuffers := indexBuffers e @
               [\<lparr>ib_indexCount = ucast (acc_count (attr_data (hd (attributes inPrim)))),
                 ib_bufferType = UINT\<rparr>]\<rparr>) s)"
    by auto
  from vs(1) have 1: "mBufferBindings (mResult s2) = mBufferBindings (mResult s) @ ?b # vs"
    by (simp add: s1)
  have 2: "syntheticBinding ?b" by (simp add: syntheticBinding_def)
  from vs(2) have 3: "\<forall>v\<in>set vs. \<not> isIndexBinding v \<and> \<not> generateTrivialIndices v"
    by (simp add: list_all_iff attributeBinding_def isIndexBinding_def)
  from ok r have 4: "ok \<longrightarrow> prim_indices outPrim1 = bb_indexBuffer ?b" by simp
  from 1 2 3 4
  show "\<exists>b vs. mBufferBindings (mResult s2) = mBufferBindings (mResult s) @ b # vs
                   \<and> syntheticBinding b
                   \<and> bb_indexBuffer b = Some (length (indexBuffers (engine s)))
                   \<and> bb_size b = ucast (acc_count (attr_data (hd (attributes inPrim))) * 4)
                   \<and> (\<forall>v\<in>set vs. \<not> isIndexBinding v \<and> \<not> generateTrivialIndices v)
                   \<and> (ok \<longrightarrow> prim_indices outPrim1 = bb_indexBuffer b)"
    by (intro exI [of _ ?b] exI [of _ vs]) simp
  from ib show "indexBuffers (engine s2) = indexBuffers (engine s) @
                  [\<lparr>ib_indexCount = ucast (acc_count (attr_data (hd (attributes inPrim)))),
                    ib_bufferType = UINT\<rparr>]"
    by (simp add: s1 addBufferBinding_def onResult_def onEngine_def)
next
  fix ok outPrim1 s2 a
  assume cp: "createPrimitive X addr inPrim outPrim uvmap s = Inr (ok, outPrim1, s2)"
    and some: "indices inPrim = Some a \<and> component_type a = cgltf_component_type_r_8u"
  then have ia: "indices inPrim = Some a" and ct: "component_type a = cgltf_component_type_r_8u"
    by simp_all
  from createPrimitive_after_indices [OF cp] obtain r s1 vb vs where
    ci: "createIndices X inPrim s = Inr (r, s1)"
    and vs: "mBufferBindings (mResult s2) = mBufferBindings (mResult s1) @ vs"
      "list_all (attributeBinding X vb (attributes inPrim) 0) vs"
    and ib: "indexBuffers (engine s2) = indexBuffers (engine s1)"
    and rn: "r = None \<longrightarrow> \<not> ok"
    and nok: "\<not> ok \<longrightarrow> vs = []"
    and ok: "ok \<longrightarrow> prim_indices outPrim1 = r"
    by blast
  show "case getIndexType X cgltf_component_type_r_8u of
          None \<Rightarrow>
            \<not> ok \<and> mBufferBindings (mResult s2) = mBufferBindings (mResult s)
            \<and> indexBuffers (engine s2) = indexBuffers (engine s)
        | Some t \<Rightarrow>
            (\<exists>b vs. mBufferBindings (mResult s2) = mBufferBindings (mResult s) @ b # vs
               \<and> convertBytesToShorts b \<and> \<not> generateTrivialIndices b
               \<and> bb_indexBuffer b = Some (length (indexBuffers (engine s)))
               \<and> sizeFormula X a b \<and> offsetFormula a b
               \<and> (\<forall>v\<in>set vs. \<not> isIndexBinding v \<and> \<not> convertBytesToShorts v)
               \<and> (ok \<longrightarrow> prim_indices outPrim1 = bb_indexBuffer b))
            \<and> indexBuffers (engine s2) = indexBuffers (engine s) @
                 [\<lparr>ib_indexCount = ucast (acc_count a), ib_bufferType = t\<rparr>]"
  proof (cases "getIndexType X cgltf_component_type_r_8u")
    case None
    with ct have "getIndexType X (component_type a) = None" by simp
    from createIndices_rejected [OF ia this, of s] ci have "r = None" "s1 = s" by simp_all
    with rn nok vs(1) ib None show ?thesis by simp
  next
    case (Some t)
    with ct have gt: "getIndexType X (component_type a) = Some t" by simp
    from ci createIndices_accessor [OF ia gt, of s] obtain b where
      ab: "accessorBinding X a 0 None (Some (length (indexBuffers (engine s))))
             (component_type a = cgltf_component_type_r_8u) = Inr b"
      and r: "r = Some (length (indexBuffers (engine s)))"
      and s1: "s1 = addBufferBinding b
                 (onEngine (\<lambda>e. e\<lparr>indexBuffers := indexBuffers e @
                    [\<lparr>ib_indexCount = ucast (acc_count a), ib_bufferType = t\<rparr>]\<rparr>) s)"
      by (auto split: sum.splits)
    note b = accessorBinding_Inr [OF ab]
    from vs(1) have 1: "mBufferBindings (mResult s2) = mBufferBindings (mResult s) @ b # vs"
      by (simp add: s1)
    from vs(2) have 3: "\<forall>v\<in>set vs. \<not> isIndexBinding v \<and> \<not> convertBytesToShorts v"
      by (simp add: list_all_iff attributeBinding_def isIndexBinding_def)
    from ok r b have 4: "ok \<longrightarrow> prim_indices outPrim1 = bb_indexBuffer b" by simp
    from 1 3 4 b ct
    have "\<exists>b vs. mBufferBindings (mResult s2) = mBufferBindings (mResult s) @ b # vs
               \<and> convertBytesToShorts b \<and> \<not> generateTrivialIndices b
               \<and> bb_indexBuffer b = Some (length (indexBuffers (engine s)))
               \<and> sizeFormula X a b \<and> offsetFormula a b
               \<and> (\<forall>v\<in>set vs. \<not> isIndexBinding v \<and> \<not> convertBytesToShorts v)
               \<and> (ok \<longrightarrow> prim_indices outPrim1 = bb_indexBuffer b)"
      by (intro exI [of _ b] exI [of _ vs]) simp
    moreover from ib have "indexBuffers (engine s2) = indexBuffers (engine s) @
                 [\<lparr>ib_indexCount = ucast (acc_count a), ib_bufferType = t\<rparr>]"
      by (simp add: s1 addBufferBinding_def onResult_def onEngine_def)
    ultimately show ?thesis using Some by simp
  qed
qed


theorem index_binding_of_primitive_witness:
  "(\<exists>ok outPrim1 s1 b v.
      createPrimitive sampleExternals (0, 0) plainPrimitive
          (new_Primitive sampleExternals) (\<lambda>i. UV0) sampleState = Inr (ok, outPrim1, s1)
      \<and> mBufferBindings (mResult s1) = [b, v]
      \<and> syntheticBinding b \<and> bb_indexBuffer b = Some 0 \<and> bb_size b = 12
      \<and> \<not> isIndexBinding v \<and> \<not> generateTrivialIndices v
      \<and> indexBuffers (engine s1) = [\<lparr>ib_indexCount = 3, ib_bufferType = UINT\<rparr>]
      \<and> ok \<and> prim_indices outPrim1 = Some 0)
   \<and> (\<exists>ok outPrim1 s1 b v.
      createPrimitive sampleExternals (0, 0) indexedPrimitive
          (new_Primitive sampleExternals) (\<lambda>i. UV0) sampleState = Inr (ok, outPrim1, s1)
      \<and> mBufferBindings (mResult s1) = [b, v]
      \<and> convertBytesToShorts b \<and> \<not> generateTrivialIndices b
      \<and> bb_indexBuffer b = Some 0 \<and> unat (bb_size b) = 3
      \<and> \<not> isIndexBinding v \<and> \<not> convertBytesToShorts v
      \<and> indexBuffers (engine s1) = [\<lparr>ib_indexCount = 3, ib_bufferType = USHORT\<rparr>]
      \<and> ok \<and> prim_indices outPrim1 = Some 0)"
proof
  let ?X = sampleExternals
  let ?o = "new_Primitive sampleExternals"
  note T = index_binding_of_primitive [of ?X "(0, 0)" plainPrimitive ?o "\<lambda>i. UV0" sampleState]
  have ret: "createPrimitive_returns ?X plainPrimitive ?o (\<lambda>i. UV0)"
    by (simp add: createPrimitive_returns_def attributesAccepted_def viewsPresent_def
          boundAttribute_def sample_defs Let_def)
  from T [THEN conjunct1] ret obtain res where
    "createPrimitive ?X (0, 0) plainPrimitive ?o (\<lambda>i. UV0) sampleState = Inr res"
    by blast
  then obtain ok outPrim1 s1 where
    cp: "createPrimitive ?X (0, 0) plainPrimitive ?o (\<lambda>i. UV0) sampleState = Inr (ok, outPrim1, s1)"
    by (cases res) auto
  have p: "indices plainPrimitive = None"
    by (simp add: plainPrimitive_def)
  note T3 = T [THEN conjunct2, THEN conjunct2, THEN spec, THEN spec, THEN spec, THEN mp, OF cp,
      THEN conjunct1, THEN mp, OF p]
  from T3 obtain b vs where
    n: "mBufferBindings (mResult s1) = mBufferBindings (mResult sampleState) @ b # vs"
    and sb: "syntheticBinding b"
    and hb: "bb_indexBuffer b = Some (length (indexBuffers (engine sampleState)))"
    and zb: "bb_size b = ucast (acc_count (attr_data (hd (attributes plainPrimitive))) * 4)"
    and others: "\<forall>v\<in>set vs. \<not> isIndexBinding v \<and> \<not> generateTrivialIndices v"
    and ob: "ok \<longrightarrow> prim_indices outPrim1 = bb_indexBuffer b"
    by blast
  from T3 have ibs: "indexBuffers (engine s1) = indexBuffers (engine sampleState) @
      [\<lparr>ib_indexCount = ucast (acc_count (attr_data (hd (attributes plainPrimitive)))),
        ib_bufferType = UINT\<rparr>]"
    by (elim conjE)
  from cp have ok: "ok" and len: "length (mBufferBindings (mResult s1)) = 2"
    by (auto simp: sample_defs createPrimitive_defs)
  from n len obtain v where vs: "vs = [v]"
    by (cases vs) (auto simp: sample_defs)
  from n vs have 1: "mBufferBindings (mResult s1) = [b, v]"
    by (simp add: sample_defs)
  from hb have 2: "bb_indexBuffer b = Some 0"
    by (simp add: sample_defs)
  from zb have 3: "bb_size b = 12"
    by (simp add: sample_defs)
  from others vs have 4: "\<not> isIndexBinding v" "\<not> generateTrivialIndices v"
    by simp_all
  from ibs have 5: "indexBuffers (engine s1) = [\<lparr>ib_indexCount = 3, ib_bufferType = UINT\<rparr>]"
    by (simp add: sample_defs)
  from ob ok 2 have 6: "prim_indices outPrim1 = Some 0"
    by simp
  from cp 1 sb 2 3 4 5 ok 6
  show "\<exists>ok outPrim1 s1 b v.
      createPrimitive sampleExternals (0, 0) plainPrimitive
          (new_Primitive sampleExternals) (\<lambda>i. UV0) sampleState = Inr (ok, outPrim1, s1)
      \<and> mBufferBindings (mResult s1) = [b, v]
      \<and> syntheticBinding b \<and> bb_indexBuffer b = Some 0 \<and> bb_size b = 12
      \<and> \<not> isIndexBinding v \<and> \<not> generateTrivialIndices v
      \<and> indexBuffers (engine s1) = [\<lparr>ib_indexCount = 3, ib_bufferType = UINT\<rparr>]
      \<and> ok \<and> prim_indices outPrim1 = Some 0"
    by (intro exI [of _ ok] exI [of _ outPrim1] exI [of _ s1] exI [of _ b] exI [of _ v] conjI)
next
  let ?X = sampleExternals
  let ?o = "new_Primitive sampleExternals"
  note T = index_binding_of_primitive [of ?X "(0, 0)" indexedPrimitive ?o "\<lambda>i. UV0" sampleState]
  have ret: "createPrimitive_returns ?X indexedPrimitive ?o (\<lambda>i. UV0)"
    by (simp add: createPrimitive_returns_def attributesAccepted_def viewsPresent_def
          boundAttribute_def sample_defs Let_def)
  from T [THEN conjunct1] ret obtain res where
    "createPrimitive ?X (0, 0) indexedPrimitive ?o (\<lambda>i. UV0) sampleState = Inr res"
    by blast
  then obtain ok outPrim1 s1 where
    cp: "createPrimitive ?X (0, 0) indexedPrimitive ?o (\<lambda>i. UV0) sampleState
           = Inr (ok, outPrim1, s1)"
    by (cases res) auto
  have p: "indices indexedPrimitive = Some byteIndexAccessor
      \<and> component_type byteIndexAccessor = cgltf_component_type_r_8u"
    by (simp add: indexedPrimitive_def plainPrimitive_def byteIndexAccessor_def)
  have g: "getIndexType sampleExternals cgltf_component_type_r_8u = Some USHORT"
    by (simp add: sampleExternals_def)
  note T3 = T [THEN conjunct2, THEN conjunct2, THEN spec, THEN spec, THEN spec, THEN mp, OF cp,
      THEN conjunct2, THEN spec, THEN mp, OF p, unfolded g option.case]
  from T3 obtain b vs where
    n: "mBufferBindings (mResult s1) = mBufferBindings (mResult sampleState) @ b # vs"
    and cb: "convertBytesToShorts b" "\<not> generateTrivialIndices b"
    and hb: "bb_indexBuffer b = Some (length (indexBuffers (engine sampleState)))"
    and zb: "sizeFormula sampleExternals byteIndexAccessor b"
    and others: "\<forall>v\<in>set vs. \<not> isIndexBinding v \<and> \<not> convertBytesToShorts v"
    and ob: "ok \<longrightarrow> prim_indices outPrim1 = bb_indexBuffer b"
    by blast
  from T3 have ibs: "indexBuffers (engine s1) = indexBuffers (engine sampleState) @
      [\<lparr>ib_indexCount = ucast (acc_count byteIndexAccessor), ib_bufferType = USHORT\<rparr>]"
    by (elim conjE)
  from cp have ok: "ok" and len: "length (mBufferBindings (mResult s1)) = 2"
    by (auto simp: sample_defs createPrimitive_defs)
  from n len obtain v where vs: "vs = [v]"
    by (cases vs) (auto simp: sample_defs)
  from n vs have 1: "mBufferBindings (mResult s1) = [b, v]"
    by (simp add: sample_defs)
  from hb have 2: "bb_indexBuffer b = Some 0"
    by (simp add: sample_defs)
  from zb have 3: "unat (bb_size b) = 3"
    by (simp add: sizeFormula_def elementSize_def sample_defs)
  from others vs have 4: "\<not> isIndexBinding v" "\<not> convertBytesToShorts v"
    by simp_all
  from ibs have 5: "indexBuffers (engine s1) = [\<lparr>ib_indexCount = 3, ib_bufferType = USHORT\<rparr>]"
    by (simp add: sample_defs)
  from ob ok 2 have 6: "prim_indices outPrim1 = Some 0"
    by simp
  from cp 1 cb 2 3 4 5 ok 6
  show "\<exists>ok outPrim1 s1 b v.
      createPrimitive sampleExternals (0, 0) indexedPrimitive
          (new_Primitive sampleExternals) (\<lambda>i. UV0) sampleState = Inr (ok, outPrim1, s1)
      \<and> mBufferBindings (mResult s1) = [b, v]
      \<and> convertBytesToShorts b \<and> \<not> generateTrivialIndices b
      \<and> bb_indexBuffer b = Some 0 \<and> unat (bb_size b) = 3
      \<and> \<not> isIndexBinding v \<and> \<not> convertBytesToShorts v
      \<and> indexBuffers (engine s1) = [\<lparr>ib_indexCount = 3, ib_bufferType = USHORT\<rparr>]
      \<and> ok \<and> prim_indices outPrim1 = Some 0"
    by (intro exI [of _ ok] exI [of _ outPrim1] exI [of _ s1] exI [of _ b] exI [of _ v] conjI)
qed

section \<open>Sharing of buffers between the nodes of a mesh\<close>










end
